theory Spec2Isabelle
  imports Complex_Main "HOL-Library.Sublist" "HOL-Library.Char_ord" "HOL-Library.List_Lexorder"
    "HOL-Library.AList"
begin

section \<open>Strings as Python sees them\<close>

text \<open>
  A Python \<open>str\<close> is modelled as a \<open>string\<close> whose characters are the code points
  below 256 (Latin-1), one \<open>char\<close> per code point. The string methods used by
  \<open>normalize_domain\<close> are written out on that range.
\<close>

definition lower_char :: "char \<Rightarrow> char" where
  \<comment> \<open>\<open>str.lower\<close> on one code point: A-Z and the Latin-1 capitals (all of
      U+00C0..U+00DE but the multiplication sign U+00D7) move up by 32.\<close>
  "lower_char c =
     (let n = (of_char c :: nat)
      in if (65 \<le> n \<and> n \<le> 90) \<or> (192 \<le> n \<and> n \<le> 222 \<and> n \<noteq> 215)
         then char_of (n + 32) else c)"

definition lower :: "string \<Rightarrow> string" where
  "lower s = map lower_char s"

definition isspace :: "char \<Rightarrow> bool" where
  \<comment> \<open>\<open>str.isspace\<close> below 256: TAB, LF, VT, FF, CR, FS, GS, RS, US, SPACE,
      NEL (U+0085) and NBSP (U+00A0).\<close>
  "isspace c = ((of_char c :: nat) \<in> {9, 10, 11, 12, 13, 28, 29, 30, 31, 32, 133, 160})"

definition lstrip :: "(char \<Rightarrow> bool) \<Rightarrow> string \<Rightarrow> string" where
  "lstrip p s = dropWhile p s"

definition rstrip :: "(char \<Rightarrow> bool) \<Rightarrow> string \<Rightarrow> string" where
  \<comment> \<open>\<open>s.rstrip(chars)\<close>: every trailing character of the set goes, not only one.\<close>
  "rstrip p s = rev (dropWhile p (rev s))"

definition strip :: "string \<Rightarrow> string" where
  \<comment> \<open>\<open>s.strip()\<close>: leading and trailing whitespace.\<close>
  "strip s = rstrip isspace (lstrip isspace s)"

fun contains :: "string \<Rightarrow> string \<Rightarrow> bool" where
  \<comment> \<open>\<open>sub in s\<close>\<close>
  "contains sub [] = (sub = [])"
| "contains sub (c # cs) = (prefix sub (c # cs) \<or> contains sub cs)"

function replace_empty :: "string \<Rightarrow> string \<Rightarrow> string" where
  \<comment> \<open>\<open>s.replace(old, "")\<close>: the occurrences of \<open>old\<close> are found from the left and
      do not overlap; an empty \<open>old\<close> leaves \<open>s\<close> as it is.\<close>
  "replace_empty old [] = []"
| "replace_empty old (c # cs) =
     (if old \<noteq> [] \<and> prefix old (c # cs)
      then replace_empty old (drop (length old) (c # cs))
      else c # replace_empty old cs)"
  by pat_completeness auto
termination
  by (relation "measure (\<lambda>(old, s). length s)") (auto simp: Suc_le_eq)

section \<open>utils.py\<close>

record parse_result =
  netloc :: string
  path :: string

definition normalize_domain :: "(string \<Rightarrow> parse_result) \<Rightarrow> string \<Rightarrow> string" where
  \<comment> \<open>\<open>urlparse\<close> of the standard library is the parameter \<open>up\<close>, taken to
      return; only the two fields read here are kept.\<close>
  "normalize_domain up url =
     (if url = [] \<or> url = ''N/A'' then []
      else
        let domain = (if contains ''://'' url
                      then (let parsed = up url
                            in if netloc parsed \<noteq> [] then netloc parsed else path parsed)
                      else url)
        in rstrip (\<lambda>c. c = CHR ''/'') (strip (replace_empty ''www.'' (lower domain))))"

section \<open>HTTP responses and decoded JSON\<close>

text \<open>
  A response is kept as its status code and the fields of the JSON body that the code
  reads; a field read with \<open>.get\<close> is optional. Every GET is taken to yield a
  response whose body is a JSON object, and the fields that are present have the types
  the code expects of them.
\<close>

datatype exn = ValueError | TypeError | OverflowError | HTTPError int

definition ok_status :: "int \<Rightarrow> bool" where
  \<comment> \<open>\<open>Response.ok\<close>: \<open>raise_for_status\<close> raises exactly on 4xx and 5xx.\<close>
  "ok_status code = (\<not> (400 \<le> code \<and> code < 600))"

datatype jid = Id_int int | Id_str string

fun truthy_id :: "jid option \<Rightarrow> bool" where
  "truthy_id None = False"
| "truthy_id (Some (Id_int n)) = (n \<noteq> 0)"
| "truthy_id (Some (Id_str s)) = (s \<noteq> [])"

datatype 'f jvalue = JNull | JBool bool | JInt int | JFloat 'f | JStr string | JOther

record 'a page =
  status_code :: int
  items :: "'a list"
  total_pages :: "int option"

abbreviation ok :: "'a page \<Rightarrow> bool" where
  "ok r \<equiv> ok_status (status_code r)"

definition last_page :: "'a page \<Rightarrow> int" where
  \<comment> \<open>\<open>meta.get("total_pages", 1)\<close>\<close>
  "last_page r = (case total_pages r of None \<Rightarrow> 1 | Some t \<Rightarrow> t)"

section \<open>visible.py\<close>

record company =
  company_name :: "string option"
  company_id :: "jid option"

record metric =
  metric_name :: "string option"
  metric_id :: jid

record 'f data_point =
  dp_date :: "string option"
  dp_value :: "'f jvalue"

record property =
  property_name :: string
  property_id :: jid

record property_value =
  portfolio_property_id :: "jid option"
  pv_value :: "string option"

record 'f visible_api =
  portfolio_company_profiles :: "int \<Rightarrow> company page"
  metrics :: "jid option option \<Rightarrow> int \<Rightarrow> metric page"
  data_points :: "jid \<Rightarrow> int \<Rightarrow> 'f data_point page"
  portfolio_properties :: "property page"
  portfolio_property_values :: "jid option \<Rightarrow> property_value page"

partial_function (option) page_counter_loop ::
  "(int \<Rightarrow> 'a page) \<Rightarrow> int \<Rightarrow> 'a list \<Rightarrow> 'a list option" where
  "page_counter_loop fetch page acc =
     (let r = fetch page
      in if \<not> ok r then Some acc
         else let acc' = acc @ items r
              in if page \<ge> last_page r then Some acc'
                 else page_counter_loop fetch (page + 1) acc')"

definition get_visible_portfolio_companies :: "'f visible_api \<Rightarrow> company list option" where
  "get_visible_portfolio_companies api =
     page_counter_loop (portfolio_company_profiles api) 1 []"

definition get_visible_metrics :: "'f visible_api \<Rightarrow> metric list option" where
  "get_visible_metrics api = page_counter_loop (metrics api None) 1 []"

definition get_visible_company_metrics ::
  "'f visible_api \<Rightarrow> jid option \<Rightarrow> metric list option" where
  "get_visible_company_metrics api company_profile_id =
     page_counter_loop (metrics api (Some company_profile_id)) 1 []"

record 'f latest =
  latest_date :: string
  latest_value :: "'f jvalue"

definition usable :: "'f jvalue \<Rightarrow> bool" where
  \<comment> \<open>\<open>value not in [None, "None"]\<close>\<close>
  "usable v = (v \<noteq> JNull \<and> v \<noteq> JStr ''None'')"

definition scan_point :: "'f latest \<Rightarrow> 'f data_point \<Rightarrow> 'f latest" where
  "scan_point l dp =
     (case dp_date dp of
        None \<Rightarrow> l
      | Some d \<Rightarrow>
          if usable (dp_value dp) \<and> d \<noteq> [] \<and> d > latest_date l
          then \<lparr>latest_date = d, latest_value = dp_value dp\<rparr> else l)"

partial_function (option) latest_loop ::
  "(int \<Rightarrow> 'f data_point page) \<Rightarrow> int \<Rightarrow> 'f latest \<Rightarrow> 'f latest option" where
  "latest_loop fetch page l =
     (let r = fetch page
      in if \<not> ok r then Some l
         else let l' = foldl scan_point l (items r)
              in if page \<ge> last_page r then Some l'
                 else latest_loop fetch (page + 1) l')"

definition get_latest_data_point :: "'f visible_api \<Rightarrow> jid \<Rightarrow> 'f latest option" where
  "get_latest_data_point api mid =
     latest_loop (data_points api mid) 1 \<lparr>latest_date = ''0000-00-00'', latest_value = JNull\<rparr>"

definition get_website_property_id :: "'f visible_api \<Rightarrow> jid option" where
  "get_website_property_id api =
     (let r = portfolio_properties api
      in if \<not> ok r then None
         else map_option property_id
                (find (\<lambda>p. prefix ''website'' (lower (property_name p))) (items r)))"

definition get_company_website :: "'f visible_api \<Rightarrow> jid option \<Rightarrow> jid \<Rightarrow> string option" where
  "get_company_website api profile_id website_property_id =
     (let r = portfolio_property_values api profile_id
      in if \<not> ok r then None
         else (case find (\<lambda>v. portfolio_property_id v = Some website_property_id) (items r) of
                 None \<Rightarrow> None
               | Some v \<Rightarrow> pv_value v))"

definition find_metric :: "string \<Rightarrow> metric list \<Rightarrow> metric option" where
  \<comment> \<open>\<open>m.get("name", "").strip().lower() == metric_name.lower().strip()\<close>\<close>
  "find_metric mn ms =
     find (\<lambda>m. lower (strip (case metric_name m of None \<Rightarrow> [] | Some n \<Rightarrow> n)) = strip (lower mn)) ms"

definition process_company ::
  "(string \<Rightarrow> parse_result) \<Rightarrow> ('f jvalue \<Rightarrow> exn + 'f) \<Rightarrow> 'f visible_api \<Rightarrow> string \<Rightarrow> jid \<Rightarrow>
   (string \<times> 'f) list \<Rightarrow> company \<Rightarrow> (exn + (string \<times> 'f) list) option" where
  \<comment> \<open>One turn of the loop over the companies. \<open>to_float\<close> is the builtin \<open>float\<close>; the
      \<open>except\<close> clause takes \<open>ValueError\<close> and \<open>TypeError\<close>, anything else leaves the
      function. \<open>None\<close> is a page loop that does not end. The \<open>print\<close> after the
      assignment comes too late to change the dict, whatever it does.\<close>
  "process_company up to_float api mn website_property_id domain_to_value c =
     (case get_company_website api (company_id c) website_property_id of
        None \<Rightarrow> Some (Inr domain_to_value)
      | Some website \<Rightarrow>
          if website = [] \<or> website = ''N/A'' then Some (Inr domain_to_value)
          else
            let normalized_domain = normalize_domain up website
            in if normalized_domain = [] then Some (Inr domain_to_value)
               else
                 (case get_visible_company_metrics api (company_id c) of
                    None \<Rightarrow> None
                  | Some ms \<Rightarrow>
                      (case find_metric mn ms of
                         None \<Rightarrow> Some (Inr domain_to_value)
                       | Some m \<Rightarrow>
                           (case get_latest_data_point api (metric_id m) of
                              None \<Rightarrow> None
                            | Some l \<Rightarrow>
                                if usable (latest_value l)
                                then (case to_float (latest_value l) of
                                        Inr v \<Rightarrow>
                                          Some (Inr (AList.update normalized_domain v domain_to_value))
                                      | Inl e \<Rightarrow>
                                          if e = ValueError \<or> e = TypeError
                                          then Some (Inr domain_to_value)
                                          else Some (Inl e))
                                else Some (Inr domain_to_value)))))"

fun company_loop ::
  "(string \<Rightarrow> parse_result) \<Rightarrow> ('f jvalue \<Rightarrow> exn + 'f) \<Rightarrow> 'f visible_api \<Rightarrow> string \<Rightarrow> jid \<Rightarrow>
   company list \<Rightarrow> (string \<times> 'f) list \<Rightarrow> (exn + (string \<times> 'f) list) option" where
  "company_loop up to_float api mn wpid [] domain_to_value = Some (Inr domain_to_value)"
| "company_loop up to_float api mn wpid (c # cs) domain_to_value =
     (case process_company up to_float api mn wpid domain_to_value c of
        None \<Rightarrow> None
      | Some (Inl e) \<Rightarrow> Some (Inl e)
      | Some (Inr d) \<Rightarrow> company_loop up to_float api mn wpid cs d)"

definition fetch_visible_metric_data ::
  "(string \<Rightarrow> parse_result) \<Rightarrow> ('f jvalue \<Rightarrow> exn + 'f) \<Rightarrow> 'f visible_api \<Rightarrow> string \<Rightarrow>
   (exn + (string \<times> 'f) list) option" where
  \<comment> \<open>The dict \<open>domain_to_value\<close> is an association list in insertion order.\<close>
  "fetch_visible_metric_data up to_float api mn =
     (case get_visible_portfolio_companies api of
        None \<Rightarrow> None
      | Some companies \<Rightarrow>
          (case get_website_property_id api of
             None \<Rightarrow> Some (Inr [])
           | Some wpid \<Rightarrow>
               if \<not> truthy_id (Some wpid) then Some (Inr [])
               else company_loop up to_float api mn wpid companies []))"

section \<open>affinity.py\<close>

record entity =
  entity_name :: "string option"
  entity_domains :: "string list option"

record list_entry =
  entry_id :: "jid option"
  entry_entity :: "entity option"

record named_item =
  item_id :: jid
  item_name :: "string option"

record 'a link_page =
  lp_status :: int
  lp_data :: "'a list"
  next_url :: "string option"

record get_request =
  url :: string
  limit :: "int option"

partial_function (option) link_loop ::
  "(get_request \<Rightarrow> 'a link_page) \<Rightarrow> string \<Rightarrow> string option \<Rightarrow> int option \<Rightarrow> 'a list \<Rightarrow>
   (exn + 'a list) option" where
  \<comment> \<open>\<open>while url:\<close> with \<open>raise_for_status\<close> on every page; \<open>base\<close> is
      \<open>AFFINITY_BASE_URL\<close>.\<close>
  "link_loop srv base u params acc =
     (case u of
        None \<Rightarrow> Some (Inr acc)
      | Some a \<Rightarrow>
          if a = [] then Some (Inr acc)
          else
            let r = srv \<lparr>url = a, limit = params\<rparr>
            in if \<not> ok_status (lp_status r) then Some (Inl (HTTPError (lp_status r)))
               else
                 let acc' = acc @ lp_data r
                 in (case next_url r of
                       None \<Rightarrow> link_loop srv base None None acc'
                     | Some n \<Rightarrow>
                         if n = [] then link_loop srv base None None acc'
                         else link_loop srv base
                                (Some (if prefix ''http'' n then n else base @ n)) None acc'))"

record 'f patch_request =
  req_list_id :: string
  req_list_entry_id :: "jid option"
  operation :: string
  update_id :: string
  value_type :: string
  value_data :: 'f

datatype patch_result = Patch_response int string | Request_exception string

record ('f, 'w) affinity_api =
  base_url :: string
  list_entries :: "get_request \<Rightarrow> list_entry link_page"
  all_lists :: "get_request \<Rightarrow> named_item link_page"
  list_fields :: "get_request \<Rightarrow> named_item link_page"
  patch :: "'w \<Rightarrow> 'f patch_request \<Rightarrow> patch_result \<times> 'w"

definition get_affinity_list_entries ::
  "('f, 'w) affinity_api \<Rightarrow> string \<Rightarrow> (exn + list_entry list) option" where
  "get_affinity_list_entries api list_id =
     link_loop (list_entries api) (base_url api)
       (Some (base_url api @ ''/v2/lists/'' @ list_id @ ''/list-entries'')) (Some 100) []"

definition get_affinity_list_fields ::
  "('f, 'w) affinity_api \<Rightarrow> string \<Rightarrow> (exn + named_item list) option" where
  "get_affinity_list_fields api list_id =
     link_loop (list_fields api) (base_url api)
       (Some (base_url api @ ''/v2/lists/'' @ list_id @ ''/fields'')) (Some 100) []"

definition get_affinity_lists :: "('f, 'w) affinity_api \<Rightarrow> (exn + named_item list) option" where
  "get_affinity_lists api =
     link_loop (all_lists api) (base_url api) (Some (base_url api @ ''/v2/lists'')) (Some 100) []"

definition update_affinity_field ::
  "('f, 'w) affinity_api \<Rightarrow> 'w \<Rightarrow> string \<Rightarrow> jid option \<Rightarrow> string \<Rightarrow> 'f \<Rightarrow> bool \<times> 'w" where
  \<comment> \<open>The remote state \<open>w\<close> is threaded through the PATCH. A response with a 4xx or 5xx
      status raises \<open>HTTPError\<close> inside the \<open>try\<close>; it and every other
      \<open>RequestException\<close> are caught and give \<open>False\<close>.\<close>
  "update_affinity_field api w list_id list_entry_id field_id v =
     (let payload = \<lparr>req_list_id = list_id, req_list_entry_id = list_entry_id,
                      operation = ''update-fields'', update_id = field_id,
                      value_type = ''number'', value_data = v\<rparr>;
          (res, w') = patch api w payload
      in (case res of
            Patch_response code body \<Rightarrow> (ok_status code, w')
          | Request_exception msg \<Rightarrow> (False, w')))"

section \<open>main.py\<close>

record 'f match =
  match_company_name :: string
  list_entry_id :: "jid option"
  domain :: string
  metric_value :: 'f

text \<open>
  The variables of step 3 of \<open>sync_runway_data\<close>. The dict \<open>visible_data\<close> is part of
  the state, so that what the loop does to it can be stated.
\<close>

record 'f match_state =
  visible_data :: "(string \<times> 'f) list"
  matches :: "'f match list"
  unmatched_visible :: "string set"
  unmatched_affinity :: "(string \<times> string list) list"

definition entry_company_name :: "list_entry \<Rightarrow> string" where
  \<comment> \<open>\<open>entry.get("entity", {}).get("name", "Unknown")\<close>\<close>
  "entry_company_name e =
     (case entry_entity e of
        None \<Rightarrow> ''Unknown''
      | Some en \<Rightarrow> (case entity_name en of None \<Rightarrow> ''Unknown'' | Some n \<Rightarrow> n))"

definition entry_domains :: "list_entry \<Rightarrow> string list" where
  \<comment> \<open>\<open>entry.get("entity", {}).get("domains", [])\<close>\<close>
  "entry_domains e =
     (case entry_entity e of
        None \<Rightarrow> []
      | Some en \<Rightarrow> (case entity_domains en of None \<Rightarrow> [] | Some ds \<Rightarrow> ds))"

fun scan_domains ::
  "(string \<Rightarrow> parse_result) \<Rightarrow> (string \<times> 'f) list \<Rightarrow> string list \<Rightarrow> (string \<times> 'f) option" where
  \<comment> \<open>The inner \<open>for domain in domains\<close>, left by \<open>break\<close> at the first normalized
      domain that is a key of \<open>visible_data\<close>.\<close>
  "scan_domains up vd [] = None"
| "scan_domains up vd (d # ds) =
     (let normalized = normalize_domain up d
      in case map_of vd normalized of
           Some v \<Rightarrow> Some (normalized, v)
         | None \<Rightarrow> scan_domains up vd ds)"

definition match_entry ::
  "(string \<Rightarrow> parse_result) \<Rightarrow> 'f match_state \<Rightarrow> list_entry \<Rightarrow> 'f match_state" where
  "match_entry up st e =
     (let cname = entry_company_name e;
          domains = entry_domains e
      in case scan_domains up (visible_data st) domains of
           Some (normalized, v) \<Rightarrow>
             st\<lparr>matches := matches st @
                    [\<lparr>match_company_name = cname, list_entry_id = entry_id e,
                      domain = normalized, metric_value = v\<rparr>],
                unmatched_visible := unmatched_visible st - {normalized}\<rparr>
         | None \<Rightarrow>
             if domains \<noteq> []
             then st\<lparr>unmatched_affinity := unmatched_affinity st @ [(cname, domains)]\<rparr>
             else st)"

definition match_companies ::
  "(string \<Rightarrow> parse_result) \<Rightarrow> (string \<times> 'f) list \<Rightarrow> list_entry list \<Rightarrow> 'f match_state" where
  "match_companies up vd entries =
     foldl (match_entry up)
       \<lparr>visible_data = vd, matches = [], unmatched_visible = set (map fst vd),
        unmatched_affinity = []\<rparr>
       entries"

datatype 'f call =
    Fetch_visible_metric_data string
  | Get_affinity_list_entries string
  | Update_affinity_field "'f patch_request" bool

record ('f, 'w) update_state =
  success_count :: nat
  failed_count :: nat
  update_calls :: "'f call list"
  remote :: 'w

definition update_match ::
  "('f, 'w) affinity_api \<Rightarrow> string \<Rightarrow> string \<Rightarrow> ('f, 'w) update_state \<Rightarrow> 'f match \<Rightarrow>
   ('f, 'w) update_state" where
  \<comment> \<open>One turn of \<open>for match in matches\<close> of step 4; the call and what it returned
      are logged.\<close>
  "update_match api list_id field_id st m =
     (let (success, w') =
            update_affinity_field api (remote st) list_id (list_entry_id m) field_id
              (metric_value m);
          logged = update_calls st @
            [Update_affinity_field
               \<lparr>req_list_id = list_id, req_list_entry_id = list_entry_id m,
                operation = ''update-fields'', update_id = field_id,
                value_type = ''number'', value_data = metric_value m\<rparr> success]
      in if success
         then st\<lparr>success_count := success_count st + 1, update_calls := logged, remote := w'\<rparr>
         else st\<lparr>failed_count := failed_count st + 1, update_calls := logged, remote := w'\<rparr>)"

datatype 'f phase = Dry_run "'f match list" | Updated nat nat

record 'f report =
  rep_matches :: "'f match list"
  rep_unmatched_visible :: "string set"
  rep_unmatched_affinity :: "(string \<times> string list) list"
  rep_phase :: "'f phase"

record ('f, 'w) run =
  calls :: "'f call list"
  world :: 'w
  outcome :: "exn + 'f report option"

definition sync_runway_data ::
  "(string \<Rightarrow> parse_result) \<Rightarrow> ('f jvalue \<Rightarrow> exn + 'f) \<Rightarrow> 'f visible_api \<Rightarrow>
   ('f, 'w) affinity_api \<Rightarrow> 'w \<Rightarrow> bool \<Rightarrow> string \<Rightarrow> string \<Rightarrow> string \<Rightarrow> ('f, 'w) run option" where
  \<comment> \<open>What the function prints is the report; \<open>Inr None\<close> is the early return of step 1,
      \<open>Inl\<close> an exception that leaves the function, \<open>None\<close> a page loop that does not
      end. \<open>calls\<close> lists the calls made by this function, in order. The parameter
      \<open>field_name\<close> is only printed and is left out.\<close>
  "sync_runway_data up to_float vapi aapi w dry_run list_id mn field_id =
     (case fetch_visible_metric_data up to_float vapi mn of
        None \<Rightarrow> None
      | Some (Inl e) \<Rightarrow>
          Some \<lparr>calls = [Fetch_visible_metric_data mn], world = w, outcome = Inl e\<rparr>
      | Some (Inr vd) \<Rightarrow>
          if vd = []
          then Some \<lparr>calls = [Fetch_visible_metric_data mn], world = w, outcome = Inr None\<rparr>
          else
            (case get_affinity_list_entries aapi list_id of
               None \<Rightarrow> None
             | Some (Inl e) \<Rightarrow>
                 Some \<lparr>calls = [Fetch_visible_metric_data mn, Get_affinity_list_entries list_id],
                       world = w, outcome = Inl e\<rparr>
             | Some (Inr affinity_entries) \<Rightarrow>
                 let st = match_companies up vd affinity_entries
                 in if dry_run
                    then Some \<lparr>calls = [Fetch_visible_metric_data mn,
                                        Get_affinity_list_entries list_id],
                               world = w,
                               outcome = Inr (Some
                                 \<lparr>rep_matches = matches st,
                                  rep_unmatched_visible = unmatched_visible st,
                                  rep_unmatched_affinity = unmatched_affinity st,
                                  rep_phase = Dry_run (matches st)\<rparr>)\<rparr>
                    else
                      let u = foldl (update_match aapi list_id field_id)
                                \<lparr>success_count = 0, failed_count = 0, update_calls = [],
                                 remote = w\<rparr>
                                (matches st)
                      in Some \<lparr>calls = [Fetch_visible_metric_data mn,
                                        Get_affinity_list_entries list_id] @ update_calls u,
                               world = remote u,
                               outcome = Inr (Some
                                 \<lparr>rep_matches = matches st,
                                  rep_unmatched_visible = unmatched_visible st,
                                  rep_unmatched_affinity = unmatched_affinity st,
                                  rep_phase = Updated (success_count u) (failed_count u)\<rparr>)\<rparr>))"

section \<open>The Python runtime and the servers of the examples\<close>

declare page_counter_loop.simps [code]
declare latest_loop.simps [code]
declare link_loop.simps [code]

definition not_delim :: "char \<Rightarrow> bool" where
  "not_delim c = (c \<noteq> CHR ''/'' \<and> c \<noteq> CHR ''?'' \<and> c \<noteq> CHR ''#'')"

fun after_scheme :: "string \<Rightarrow> string" where
  "after_scheme [] = []"
| "after_scheme (c # cs) = (if prefix ''://'' (c # cs) then drop 3 (c # cs) else after_scheme cs)"

definition urlparse_authority :: "string \<Rightarrow> parse_result" where
  \<comment> \<open>\<open>urlparse\<close> on an absolute URL \<open>scheme://authority/path?query#fragment\<close>:
      the authority is the text after the first \<open>://\<close> up to the next \<open>/\<close>, \<open>?\<close> or
      \<open>#\<close>, the path what follows it up to \<open>?\<close> or \<open>#\<close>. It stands for the
      library function in the examples, which the theorems leave arbitrary.\<close>
  "urlparse_authority u =
     (let rest = after_scheme u
      in \<lparr>netloc = takeWhile not_delim rest,
          path = takeWhile (\<lambda>c. c \<noteq> CHR ''?'' \<and> c \<noteq> CHR ''#'') (dropWhile not_delim rest)\<rparr>)"

definition py_float :: "(string \<Rightarrow> real option) \<Rightarrow> real jvalue \<Rightarrow> exn + real" where
  \<comment> \<open>The builtin \<open>float\<close> on a decoded JSON value, floats being read as reals:
      \<open>TypeError\<close> on \<open>None\<close>, lists and dicts, \<open>ValueError\<close> on a string that is
      no float literal (\<open>literal\<close> is the parser of literals), \<open>OverflowError\<close> on an
      integer that rounds beyond the largest double. Rounding is not modelled.\<close>
  "py_float literal v =
     (case v of
        JNull \<Rightarrow> Inl TypeError
      | JBool b \<Rightarrow> Inr (if b then 1 else 0)
      | JInt n \<Rightarrow> if 2 ^ 1024 - 2 ^ 970 \<le> \<bar>n\<bar> then Inl OverflowError else Inr (of_int n)
      | JFloat x \<Rightarrow> Inr x
      | JStr t \<Rightarrow> (case literal t of None \<Rightarrow> Inl ValueError | Some x \<Rightarrow> Inr x)
      | JOther \<Rightarrow> Inl TypeError)"

definition example_source :: "(string \<times> real) list" where
  "example_source = [(''a'', 1), (''b'', 2)]"

definition record_with :: "int \<Rightarrow> string list \<Rightarrow> list_entry" where
  "record_with i ds =
     \<lparr>entry_id = Some (Id_int i),
      entry_entity = Some \<lparr>entity_name = None, entity_domains = Some ds\<rparr>\<rparr>"

definition example_records :: "list_entry list" where
  "example_records = [record_with 1 [''a''], record_with 2 [''a'', ''b''], record_with 3 [''c'']]"

definition literals :: "string \<Rightarrow> real option" where
  \<comment> \<open>The float literals that occur in the examples.\<close>
  "literals = map_of [(''12.5'', 12.5)]"

definition visible_with :: "real jvalue \<Rightarrow> real visible_api" where
  \<comment> \<open>A Visible account with two companies on two pages. Beta comes first and has one
      data point, with value \<open>v\<close>; Acme has three, the latest usable one being 18.\<close>
  "visible_with v =
     \<lparr>portfolio_company_profiles = (\<lambda>p.
        if p = 1 then \<lparr>status_code = 200,
                       items = [\<lparr>company_name = Some ''Beta'', company_id = Some (Id_int 2)\<rparr>],
                       total_pages = Some 2\<rparr>
        else if p = 2 then \<lparr>status_code = 200,
                            items = [\<lparr>company_name = Some ''Acme'', company_id = Some (Id_int 1)\<rparr>],
                            total_pages = Some 2\<rparr>
        else \<lparr>status_code = 404, items = [], total_pages = None\<rparr>),
      metrics = (\<lambda>f p.
        if p = 1 \<and> f = Some (Some (Id_int 1))
        then \<lparr>status_code = 200,
              items = [\<lparr>metric_name = Some ''Cash'', metric_id = Id_int 10\<rparr>,
                       \<lparr>metric_name = Some '' Runway '', metric_id = Id_int 11\<rparr>],
              total_pages = Some 1\<rparr>
        else if p = 1 \<and> f = Some (Some (Id_int 2))
        then \<lparr>status_code = 200,
              items = [\<lparr>metric_name = Some ''runway'', metric_id = Id_int 21\<rparr>],
              total_pages = None\<rparr>
        else \<lparr>status_code = 404, items = [], total_pages = None\<rparr>),
      data_points = (\<lambda>m p.
        if p = 1 \<and> m = Id_int 11
        then \<lparr>status_code = 200,
              items = [\<lparr>dp_date = Some ''2024-01-31'', dp_value = JStr ''12.5''\<rparr>,
                       \<lparr>dp_date = Some ''2024-02-29'', dp_value = JInt 18\<rparr>,
                       \<lparr>dp_date = Some ''2024-03-31'', dp_value = JNull\<rparr>],
              total_pages = Some 1\<rparr>
        else if p = 1 \<and> m = Id_int 21
        then \<lparr>status_code = 200,
              items = [\<lparr>dp_date = Some ''2024-02-29'', dp_value = v\<rparr>],
              total_pages = Some 1\<rparr>
        else \<lparr>status_code = 404, items = [], total_pages = None\<rparr>),
      portfolio_properties =
        \<lparr>status_code = 200,
         items = [\<lparr>property_name = ''Stage'', property_id = Id_int 6\<rparr>,
                  \<lparr>property_name = ''Website URL'', property_id = Id_int 7\<rparr>],
         total_pages = None\<rparr>,
      portfolio_property_values = (\<lambda>c.
        \<lparr>status_code = 200,
         items = [\<lparr>portfolio_property_id = Some (Id_int 7),
                   pv_value = (if c = Some (Id_int 1) then Some ''https://www.Acme.com/''
                               else Some ''beta.io'')\<rparr>],
         total_pages = None\<rparr>)\<rparr>"

definition no_website :: "real visible_api" where
  \<comment> \<open>The same account without a property named Website.\<close>
  "no_website =
     (visible_with JNull)\<lparr>portfolio_properties :=
        \<lparr>status_code = 200, items = [\<lparr>property_name = ''Stage'', property_id = Id_int 6\<rparr>],
         total_pages = None\<rparr>\<rparr>"

definition affinity_with :: "int \<Rightarrow> (real, real patch_request list) affinity_api" where
  \<comment> \<open>An Affinity list on two pages, the second answering with status \<open>code\<close>. The
      remote state is the list of PATCH requests received. The PATCH for entry 2 is
      answered with status 500, the one for entry 3 does not get through.\<close>
  "affinity_with code =
     \<lparr>base_url = ''https://api.affinity.co'',
      list_entries = (\<lambda>r.
        if url r = ''https://api.affinity.co/v2/lists/L/list-entries'' \<and> limit r = Some 100
        then \<lparr>lp_status = 200,
              lp_data = [\<lparr>entry_id = Some (Id_int 1),
                          entry_entity = Some \<lparr>entity_name = Some ''Acme Inc'',
                                                entity_domains = Some [''acme.com'']\<rparr>\<rparr>,
                         \<lparr>entry_id = Some (Id_int 2),
                          entry_entity = Some \<lparr>entity_name = Some ''Beta'',
                                                entity_domains = Some [''old.example'', ''WWW.Beta.io/'']\<rparr>\<rparr>],
              next_url = Some ''/v2/lists/L/list-entries?cursor=2''\<rparr>
        else if url r = ''https://api.affinity.co/v2/lists/L/list-entries?cursor=2'' \<and> limit r = None
        then \<lparr>lp_status = code,
              lp_data = [\<lparr>entry_id = Some (Id_int 3),
                          entry_entity = Some \<lparr>entity_name = Some ''Acme Holding'',
                                                entity_domains = Some [''ACME.com'']\<rparr>\<rparr>,
                         \<lparr>entry_id = Some (Id_int 4),
                          entry_entity = Some \<lparr>entity_name = Some ''Gamma'',
                                                entity_domains = Some [''gamma.org'']\<rparr>\<rparr>,
                         \<lparr>entry_id = Some (Id_int 5), entry_entity = None\<rparr>],
              next_url = None\<rparr>
        else \<lparr>lp_status = 404, lp_data = [], next_url = None\<rparr>),
      all_lists = (\<lambda>r. \<lparr>lp_status = 200, lp_data = [], next_url = None\<rparr>),
      list_fields = (\<lambda>r. \<lparr>lp_status = 200, lp_data = [], next_url = None\<rparr>),
      patch = (\<lambda>w r.
        (if req_list_entry_id r = Some (Id_int 2) then Patch_response 500 ''server error''
         else if req_list_entry_id r = Some (Id_int 3) then Request_exception ''timed out''
         else Patch_response 200 ''{}'',
         w @ [r]))\<rparr>"

definition entry_match ::
  "(string \<Rightarrow> parse_result) \<Rightarrow> (string \<times> 'f) list \<Rightarrow> list_entry \<Rightarrow> 'f match list" where
  \<comment> \<open>What one record adds to \<open>matches\<close>, read off \<open>match_entry\<close>.\<close>
  "entry_match up vd e =
     (case scan_domains up vd (entry_domains e) of
        None \<Rightarrow> []
      | Some (normalized, v) \<Rightarrow>
          [\<lparr>match_company_name = entry_company_name e, list_entry_id = entry_id e,
            domain = normalized, metric_value = v\<rparr>])"

fun call_request :: "'f call \<Rightarrow> 'f patch_request list" where
  "call_request (Update_affinity_field q b) = [q]"
| "call_request (Fetch_visible_metric_data mn) = []"
| "call_request (Get_affinity_list_entries l) = []"

definition update_requests :: "'f call list \<Rightarrow> 'f patch_request list" where
  \<comment> \<open>The PATCH requests of a log, in order.\<close>
  "update_requests cs = concat (map call_request cs)"

definition request_for :: "string \<Rightarrow> string \<Rightarrow> 'f match \<Rightarrow> 'f patch_request" where
  \<comment> \<open>The request that \<open>update_affinity_field\<close> sends for a match.\<close>
  "request_for list_id field_id m =
     \<lparr>req_list_id = list_id, req_list_entry_id = list_entry_id m,
      operation = ''update-fields'', update_id = field_id,
      value_type = ''number'', value_data = metric_value m\<rparr>"

fun patch_answers ::
  "('f, 'w) affinity_api \<Rightarrow> 'w \<Rightarrow> 'f patch_request list \<Rightarrow> patch_result list \<times> 'w" where
  \<comment> \<open>What the update endpoint answers to requests sent one after the other from the
      remote state \<open>w\<close>, and the remote state after the last one.\<close>
  "patch_answers api w [] = ([], w)"
| "patch_answers api w (q # qs) =
     (let (a, w') = patch api w q;
          (as, w'') = patch_answers api w' qs
      in (a # as, w''))"

fun answer_ok :: "patch_result \<Rightarrow> bool" where
  \<comment> \<open>Following the spec: an update fails on a transport error and on a non-success
      status.\<close>
  "answer_ok (Patch_response code body) = ok_status code"
| "answer_ok (Request_exception msg) = False"

definition logged_updates ::
  "string \<Rightarrow> string \<Rightarrow> 'f match list \<Rightarrow> patch_result list \<Rightarrow> 'f call list" where
  \<comment> \<open>One update call per match, in the order of the matches, each with the boolean
      that stands for the endpoint's answer to it.\<close>
  "logged_updates list_id field_id ms answers =
     map (\<lambda>(m, a). Update_affinity_field (request_for list_id field_id m) (answer_ok a))
       (zip ms answers)"

section \<open>What the spec says of the collections\<close>

definition fetched_before :: "(int \<Rightarrow> 'a page) \<Rightarrow> int \<Rightarrow> bool" where
  \<comment> \<open>Pages 1 to \<open>n - 1\<close> were answered with success and none of them was the last.\<close>
  "fetched_before fetch n =
     (1 \<le> n \<and> list_all (\<lambda>p. ok (fetch p) \<and> p < last_page (fetch p)) [1..n - 1])"

definition pages_items :: "(int \<Rightarrow> 'a page) \<Rightarrow> int \<Rightarrow> 'a list" where
  \<comment> \<open>The items of pages 1 to \<open>n\<close>, in page order.\<close>
  "pages_items fetch n = concat (map (\<lambda>p. items (fetch p)) [1..n])"

definition partial_on_failure :: "(int \<Rightarrow> 'a page) \<Rightarrow> 'a list option \<Rightarrow> bool" where
  \<comment> \<open>Following the spec: a non-success status on a page ends the collection, which
      returns the items of the pages before it.\<close>
  "partial_on_failure fetch result =
     (\<forall>n. fetched_before fetch n \<and> \<not> ok (fetch n) \<longrightarrow>
          result = Some (pages_items fetch (n - 1)))"

definition page_counter_spec :: "(int \<Rightarrow> 'a page) \<Rightarrow> 'a list option \<Rightarrow> bool" where
  \<comment> \<open>Following the spec: the collection returns whenever some page is its own
      \<open>total_pages\<close>; it returns all pages' items in page order when that page is reached
      with every page answered; it returns the earlier pages' items when a page fails.\<close>
  "page_counter_spec fetch result =
     ((\<forall>m. 1 \<le> m \<and> last_page (fetch m) = m \<longrightarrow> (\<exists>ys. result = Some ys))
      \<and> (\<forall>m. fetched_before fetch m \<and> ok (fetch m) \<and> last_page (fetch m) = m \<longrightarrow>
              result = Some (pages_items fetch m))
      \<and> partial_on_failure fetch result)"

fun follow_links ::
  "(get_request \<Rightarrow> 'a link_page) \<Rightarrow> string \<Rightarrow> get_request \<Rightarrow> nat \<Rightarrow> get_request option" where
  \<comment> \<open>Following the spec's link-style pagination: the request for the page that comes
      \<open>n\<close> pages after \<open>rq\<close>, when each of these \<open>n\<close> pages is answered with success and
      names a next page; the next-page URL is resolved against the base when it is
      relative, and no other parameter is sent with it.\<close>
  "follow_links srv base rq 0 = Some rq"
| "follow_links srv base rq (Suc n) =
     (let r = srv rq
      in if \<not> ok_status (lp_status r) then None
         else (case next_url r of
                 None \<Rightarrow> None
               | Some nx \<Rightarrow>
                   if nx = [] then None
                   else follow_links srv base
                          \<lparr>url = (if prefix ''http'' nx then nx else base @ nx), limit = None\<rparr> n))"

definition raises_at_any_page ::
  "(get_request \<Rightarrow> 'a link_page) \<Rightarrow> string \<Rightarrow> get_request \<Rightarrow> (exn + 'a list) option \<Rightarrow> bool" where
  \<comment> \<open>A collection that starts with the request \<open>first\<close> raises \<open>HTTPError\<close> as soon
      as a page, the first or any later one, is answered with a non-success status; the
      items of the pages before it are not returned.\<close>
  "raises_at_any_page srv base first result =
     (\<forall>n rq. follow_links srv base first n = Some rq \<and> \<not> ok_status (lp_status (srv rq)) \<longrightarrow>
             result = Some (Inl (HTTPError (lp_status (srv rq)))))"

definition failing_profiles :: "real visible_api" where
  \<comment> \<open>The account of \<open>visible_with\<close>, the second page of companies answering 503.\<close>
  "failing_profiles =
     (visible_with JNull)\<lparr>portfolio_company_profiles := (\<lambda>p.
        if p = 1 then portfolio_company_profiles (visible_with JNull) 1
        else \<lparr>status_code = 503, items = [], total_pages = None\<rparr>)\<rparr>"

definition beta :: company where
  "beta = \<lparr>company_name = Some ''Beta'', company_id = Some (Id_int 2)\<rparr>"

definition acme :: company where
  "acme = \<lparr>company_name = Some ''Acme'', company_id = Some (Id_int 1)\<rparr>"

definition first_entries :: "list_entry list" where
  \<comment> \<open>The first page of the list of \<open>affinity_with\<close>.\<close>
  "first_entries =
     [\<lparr>entry_id = Some (Id_int 1),
       entry_entity = Some \<lparr>entity_name = Some ''Acme Inc'', entity_domains = Some [''acme.com'']\<rparr>\<rparr>,
      \<lparr>entry_id = Some (Id_int 2),
       entry_entity = Some \<lparr>entity_name = Some ''Beta'',
                             entity_domains = Some [''old.example'', ''WWW.Beta.io/'']\<rparr>\<rparr>]"

definition demo_matches :: "real match list" where
  \<comment> \<open>The matches of the source \<open>{beta.io: 7.5, acme.com: 18}\<close> with the list of
      \<open>affinity_with 200\<close>.\<close>
  "demo_matches =
     [\<lparr>match_company_name = ''Acme Inc'', list_entry_id = Some (Id_int 1),
       domain = ''acme.com'', metric_value = 18\<rparr>,
      \<lparr>match_company_name = ''Beta'', list_entry_id = Some (Id_int 2),
       domain = ''beta.io'', metric_value = 7.5\<rparr>,
      \<lparr>match_company_name = ''Acme Holding'', list_entry_id = Some (Id_int 3),
       domain = ''acme.com'', metric_value = 18\<rparr>]"

definition demo_report :: "real phase \<Rightarrow> real report" where
  "demo_report ph =
     \<lparr>rep_matches = demo_matches, rep_unmatched_visible = {},
      rep_unmatched_affinity = [(''Gamma'', [''gamma.org''])], rep_phase = ph\<rparr>"

definition demo_dry_run :: "(real, real patch_request list) run" where
  "demo_dry_run =
     \<lparr>calls = [Fetch_visible_metric_data ''Runway'', Get_affinity_list_entries ''L''],
      world = [],
      outcome = Inr (Some (demo_report (Dry_run demo_matches)))\<rparr>"

definition demo_update_run :: "(real, real patch_request list) run" where
  "demo_update_run =
     \<lparr>calls = [Fetch_visible_metric_data ''Runway'', Get_affinity_list_entries ''L'',
               Update_affinity_field (request_for ''L'' ''field-1'' (demo_matches ! 0)) True,
               Update_affinity_field (request_for ''L'' ''field-1'' (demo_matches ! 1)) False,
               Update_affinity_field (request_for ''L'' ''field-1'' (demo_matches ! 2)) False],
      world = map (request_for ''L'' ''field-1'') demo_matches,
      outcome = Inr (Some (demo_report (Updated 1 2)))\<rparr>"

definition demo_source :: "(string \<times> real) list" where
  \<comment> \<open>The metric map fetched from \<open>visible_with (JFloat 7.5)\<close>.\<close>
  "demo_source = [(''beta.io'', 7.5), (''acme.com'', 18)]"

definition second_entries :: "list_entry list" where
  \<comment> \<open>The second page of the list of \<open>affinity_with\<close>.\<close>
  "second_entries =
     [\<lparr>entry_id = Some (Id_int 3),
       entry_entity = Some \<lparr>entity_name = Some ''Acme Holding'',
                             entity_domains = Some [''ACME.com'']\<rparr>\<rparr>,
      \<lparr>entry_id = Some (Id_int 4),
       entry_entity = Some \<lparr>entity_name = Some ''Gamma'', entity_domains = Some [''gamma.org'']\<rparr>\<rparr>,
      \<lparr>entry_id = Some (Id_int 5), entry_entity = None\<rparr>]"

definition unreachable_patch ::
  "real patch_request list \<Rightarrow> real patch_request \<Rightarrow> patch_result \<times> real patch_request list" where
  \<comment> \<open>An update endpoint that never answers.\<close>
  "unreachable_patch w r = (Request_exception ''connection refused'', w)"

section \<open>Properties of the string functions\<close>

lemma lower_char_idem: "lower_char (lower_char c) = lower_char c"
  by (auto simp: lower_char_def Let_def)

lemma lower_fixed: "(\<forall>c \<in> set s. lower_char c = c) \<Longrightarrow> lower s = s"
  by (simp add: lower_def map_idI)

lemma set_lower_fixed: "c \<in> set (lower s) \<Longrightarrow> lower_char c = c"
  by (auto simp: lower_def lower_char_idem)

lemma set_replace_empty: "set (replace_empty old s) \<subseteq> set s"
proof (induction old s rule: replace_empty.induct)
  case (1 old)
  then show ?case by simp
next
  case (2 old c cs)
  then show ?case
    using set_drop_subset [of "length old" "c # cs"] by (auto split: if_splits)
qed

lemma set_rstrip: "set (rstrip p s) \<subseteq> set s"
  using set_dropWhileD [of _ p "rev s"] by (auto simp: rstrip_def)

lemma set_lstrip: "set (lstrip p s) \<subseteq> set s"
  using set_dropWhileD [of _ p s] by (auto simp: lstrip_def)

lemma set_strip: "set (strip s) \<subseteq> set s"
  using set_rstrip [of isspace "lstrip isspace s"] set_lstrip [of isspace s]
  by (auto simp: strip_def)

lemma replace_empty_absent: "\<not> contains old s \<Longrightarrow> replace_empty old s = s"
  by (induction old s rule: replace_empty.induct) auto

lemma rstrip_fixed: "s = [] \<or> \<not> p (last s) \<Longrightarrow> rstrip p s = s"
  by (cases s rule: rev_cases) (auto simp: rstrip_def)

lemma lstrip_fixed: "s = [] \<or> \<not> p (hd s) \<Longrightarrow> lstrip p s = s"
  by (cases s) (auto simp: lstrip_def)

lemma rstrip_last: "rstrip p s = [] \<or> \<not> p (last (rstrip p s))"
proof (cases "dropWhile p (rev s)")
  case Nil
  then show ?thesis by (simp add: rstrip_def)
next
  case (Cons a as)
  then have "\<not> p a" using hd_dropWhile [of p "rev s"] by auto
  with Cons show ?thesis by (simp add: rstrip_def)
qed

lemma lstrip_hd: "lstrip p s = [] \<or> \<not> p (hd (lstrip p s))"
  using hd_dropWhile [of p s] by (auto simp: lstrip_def)

lemma rstrip_prefix: "prefix (rstrip p s) s"
proof -
  have "rev s = takeWhile p (rev s) @ dropWhile p (rev s)" by simp
  then have "s = rev (dropWhile p (rev s)) @ rev (takeWhile p (rev s))"
    by (metis rev_append rev_rev_ident)
  then show ?thesis unfolding rstrip_def by (metis prefixI)
qed

lemma rstrip_hd:
  assumes "rstrip p s \<noteq> []"
  shows "hd (rstrip p s) = hd s"
proof -
  obtain zs where "s = rstrip p s @ zs"
    using rstrip_prefix [of p s] by (auto simp: prefix_def)
  then have "hd s = hd (rstrip p s @ zs)" by simp
  also have "\<dots> = hd (rstrip p s)" using assms by simp
  finally show ?thesis by simp
qed

lemma strip_hd: "strip s = [] \<or> \<not> isspace (hd (strip s))"
proof (cases "strip s = []")
  case True
  then show ?thesis by simp
next
  case False
  then have ne: "rstrip isspace (lstrip isspace s) \<noteq> []" by (simp add: strip_def)
  then have "lstrip isspace s \<noteq> []" by (auto simp: rstrip_def)
  then have "\<not> isspace (hd (lstrip isspace s))" using lstrip_hd [of isspace s] by simp
  with ne show ?thesis by (simp add: strip_def rstrip_hd)
qed

section \<open>Properties of normalize_domain\<close>

lemma normalize_domain_pipeline:
  "normalize_domain up u = [] \<or>
   (\<exists>d. normalize_domain up u =
      rstrip (\<lambda>c. c = CHR ''/'') (strip (replace_empty ''www.'' (lower d))))"
  by (auto simp: normalize_domain_def Let_def)

lemma normalize_domain_lower:
  assumes "c \<in> set (normalize_domain up u)"
  shows "lower_char c = c"
proof -
  from assms obtain d where
    "c \<in> set (rstrip (\<lambda>c. c = CHR ''/'') (strip (replace_empty ''www.'' (lower d))))"
    using normalize_domain_pipeline [of up u] by auto
  then have "c \<in> set (lower d)"
    using set_rstrip set_strip set_replace_empty by (meson subsetD)
  then show ?thesis by (rule set_lower_fixed)
qed

lemma normalize_domain_hd:
  "normalize_domain up u = [] \<or> \<not> isspace (hd (normalize_domain up u))"
proof (cases "normalize_domain up u = []")
  case True
  then show ?thesis by simp
next
  case False
  then obtain d where d: "normalize_domain up u =
      rstrip (\<lambda>c. c = CHR ''/'') (strip (replace_empty ''www.'' (lower d)))"
    using normalize_domain_pipeline [of up u] by auto
  let ?z = "strip (replace_empty ''www.'' (lower d))"
  from False d have ne: "rstrip (\<lambda>c. c = CHR ''/'') ?z \<noteq> []" by simp
  then have "?z \<noteq> []" by (auto simp: rstrip_def)
  then have "\<not> isspace (hd ?z)" using strip_hd [of "replace_empty ''www.'' (lower d)"] by simp
  with ne d show ?thesis by (simp add: rstrip_hd)
qed

lemma normalize_domain_last:
  "normalize_domain up u = [] \<or> last (normalize_domain up u) \<noteq> CHR ''/''"
proof (cases "normalize_domain up u = []")
  case True
  then show ?thesis by simp
next
  case False
  then obtain d where d: "normalize_domain up u =
      rstrip (\<lambda>c. c = CHR ''/'') (strip (replace_empty ''www.'' (lower d)))"
    using normalize_domain_pipeline [of up u] by auto
  show ?thesis unfolding d using rstrip_last [of "\<lambda>c. c = CHR ''/''"] by blast
qed

lemma normalize_domain_fixed:
  assumes "\<not> contains ''www.'' y" and "\<not> contains ''://'' y"
    and "\<forall>c \<in> set y. lower_char c = c"
    and "y = [] \<or> (\<not> isspace (hd y) \<and> \<not> isspace (last y) \<and> last y \<noteq> CHR ''/'')"
  shows "normalize_domain up y = y"
proof (cases "y = []")
  case True
  then show ?thesis by (simp add: normalize_domain_def)
next
  case False
  have "lower_char (CHR ''N'') \<noteq> CHR ''N''" by code_simp
  with assms(3) have na: "y \<noteq> ''N/A''" by auto
  have 1: "lower y = y" using assms(3) by (rule lower_fixed)
  have 2: "replace_empty ''www.'' y = y" using assms(1) by (rule replace_empty_absent)
  have 3: "strip y = y" using assms(4) False by (simp add: strip_def lstrip_fixed rstrip_fixed)
  have 4: "rstrip (\<lambda>c. c = CHR ''/'') y = y" using assms(4) False by (simp add: rstrip_fixed)
  show ?thesis using False na assms(2) 1 2 3 4 by (simp add: normalize_domain_def)
qed

text \<open>
  C2 (as stated): \<open>normalize(normalize(x)) == normalize(x)\<close> for every string \<open>x\<close>.
  It fails at \<open>"a /"\<close>: the trailing slash goes after the whitespace was stripped, which
  leaves \<open>"a "\<close>, and a second pass strips the blank that the first one uncovered.
\<close>

theorem normalize_domain_not_idempotent:
  "normalize_domain urlparse_authority ''a /'' = ''a '' \<and>
   normalize_domain urlparse_authority (normalize_domain urlparse_authority ''a /'') = ''a'' \<and>
   normalize_domain urlparse_authority (normalize_domain urlparse_authority ''a /'')
     \<noteq> normalize_domain urlparse_authority ''a /''"
  by code_simp

text \<open>
  C2 (amended): a second normalization changes nothing whenever the first result
  contains neither \<open>"www."\<close> nor \<open>"://"\<close> and does not end in whitespace; this holds
  whatever \<open>urlparse\<close> returns.
\<close>

theorem normalize_domain_idempotent_if_stable:
  assumes "\<not> contains ''www.'' (normalize_domain up x)"
    and "\<not> contains ''://'' (normalize_domain up x)"
    and "normalize_domain up x = [] \<or> \<not> isspace (last (normalize_domain up x))"
  shows "normalize_domain up (normalize_domain up x) = normalize_domain up x"
proof (rule normalize_domain_fixed)
  show "\<not> contains ''www.'' (normalize_domain up x)" by (rule assms(1))
  show "\<not> contains ''://'' (normalize_domain up x)" by (rule assms(2))
  show "\<forall>c \<in> set (normalize_domain up x). lower_char c = c"
    using normalize_domain_lower by blast
  show "normalize_domain up x = [] \<or>
        (\<not> isspace (hd (normalize_domain up x)) \<and> \<not> isspace (last (normalize_domain up x))
         \<and> last (normalize_domain up x) \<noteq> CHR ''/'')"
    using assms(3) normalize_domain_hd [of up x] normalize_domain_last [of up x] by blast
qed

theorem normalize_domain_idempotent_if_stable_witness:
  "\<not> contains ''www.'' (normalize_domain urlparse_authority ''https://www.Example.com/'') \<and>
   \<not> contains ''://'' (normalize_domain urlparse_authority ''https://www.Example.com/'') \<and>
   \<not> isspace (last (normalize_domain urlparse_authority ''https://www.Example.com/'')) \<and>
   normalize_domain urlparse_authority ''https://www.Example.com/'' = ''example.com'' \<and>
   normalize_domain urlparse_authority
     (normalize_domain urlparse_authority ''https://www.Example.com/'') = ''example.com''"
proof -
  have v: "normalize_domain urlparse_authority ''https://www.Example.com/'' = ''example.com''"
    by code_simp
  have h1: "\<not> contains ''www.'' (normalize_domain urlparse_authority ''https://www.Example.com/'')"
    unfolding v by code_simp
  have h2: "\<not> contains ''://'' (normalize_domain urlparse_authority ''https://www.Example.com/'')"
    unfolding v by code_simp
  have h3: "\<not> isspace (last (normalize_domain urlparse_authority ''https://www.Example.com/''))"
    unfolding v by code_simp
  from h3 have h3': "normalize_domain urlparse_authority ''https://www.Example.com/'' = [] \<or>
      \<not> isspace (last (normalize_domain urlparse_authority ''https://www.Example.com/''))"
    by simp
  show ?thesis
    using normalize_domain_idempotent_if_stable [OF h1 h2 h3'] h1 h2 h3 v by simp
qed

text \<open>
  C4 (as stated): the last step strips one trailing \<open>"/"\<close>, so that an input ending in
  two slashes keeps one. It fails at \<open>"example.com//"\<close>: \<open>rstrip("/")\<close> takes both.
\<close>

theorem normalize_domain_two_slashes:
  "normalize_domain urlparse_authority ''example.com//'' = ''example.com'' \<and>
   \<not> suffix ''/'' (normalize_domain urlparse_authority ''example.com//'')"
  by code_simp

text \<open>
  C4 (amended): on a non-empty host string other than \<open>"N/A"\<close> (no \<open>"://"\<close> in it),
  \<open>normalize_domain\<close> lower-cases, removes every \<open>"www."\<close>, strips the whitespace at
  both ends and then strips all trailing \<open>"/"\<close>; so no result ends in a slash, however
  many slashes the input ends in.
\<close>

theorem normalize_domain_steps:
  assumes "u \<noteq> []" and "u \<noteq> ''N/A''" and "\<not> contains ''://'' u"
  shows "normalize_domain up u =
           rstrip (\<lambda>c. c = CHR ''/'') (strip (replace_empty ''www.'' (lower u)))
         \<and> \<not> suffix ''/'' (normalize_domain up u)"
proof -
  have "\<not> suffix ''/'' (normalize_domain up u)"
  proof
    assume "suffix ''/'' (normalize_domain up u)"
    then obtain zs where "normalize_domain up u = zs @ ''/''" by (auto simp: suffix_def)
    then have "normalize_domain up u \<noteq> [] \<and> last (normalize_domain up u) = CHR ''/''" by simp
    then show False using normalize_domain_last [of up u] by blast
  qed
  then show ?thesis using assms by (simp add: normalize_domain_def)
qed

theorem normalize_domain_steps_witness:
  "''example.com//'' \<noteq> [] \<and> ''example.com//'' \<noteq> ''N/A'' \<and> \<not> contains ''://'' ''example.com//'' \<and>
   normalize_domain urlparse_authority ''example.com//'' =
     rstrip (\<lambda>c. c = CHR ''/'') (strip (replace_empty ''www.'' (lower ''example.com//''))) \<and>
   rstrip (\<lambda>c. c = CHR ''/'') (strip (replace_empty ''www.'' (lower ''example.com//''))) = ''example.com'' \<and>
   \<not> suffix ''/'' (normalize_domain urlparse_authority ''example.com//'')"
proof -
  have h1: "''example.com//'' \<noteq> []" by simp
  have h2: "''example.com//'' \<noteq> ''N/A''" by simp
  have h3: "\<not> contains ''://'' ''example.com//''" by code_simp
  have v: "rstrip (\<lambda>c. c = CHR ''/'') (strip (replace_empty ''www.'' (lower ''example.com//'')))
             = ''example.com''"
    by code_simp
  show ?thesis
    using normalize_domain_steps [OF h1 h2 h3, of urlparse_authority] h1 h2 h3 v by blast
qed

section \<open>Matching companies by domain\<close>

lemma match_entry_visible_data: "visible_data (match_entry up st e) = visible_data st"
  by (simp add: match_entry_def Let_def split: option.splits prod.splits)

lemma foldl_match_entry_visible_data:
  "visible_data (foldl (match_entry up) st es) = visible_data st"
  by (induction es arbitrary: st) (simp_all add: match_entry_visible_data)

lemma match_entry_matches:
  "matches (match_entry up st e) = matches st @ entry_match up (visible_data st) e"
  by (simp add: match_entry_def entry_match_def Let_def split: option.splits prod.splits)

lemma foldl_match_entry_matches:
  "matches (foldl (match_entry up) st es) =
     matches st @ concat (map (entry_match up (visible_data st)) es)"
  by (induction es arbitrary: st) (simp_all add: match_entry_matches match_entry_visible_data)

lemma match_companies_matches:
  "matches (match_companies up vd es) = concat (map (entry_match up vd) es)"
  by (simp add: match_companies_def foldl_match_entry_matches)

lemma scan_domains_find:
  "scan_domains up vd ds =
     (case find (\<lambda>d. d \<in> fst ` set vd) (map (normalize_domain up) ds) of
        None \<Rightarrow> None
      | Some d \<Rightarrow> Some (d, the (map_of vd d)))"
proof (induction ds)
  case Nil
  then show ?case by simp
next
  case (Cons d ds)
  show ?case
  proof (cases "map_of vd (normalize_domain up d)")
    case None
    then have "normalize_domain up d \<notin> fst ` set vd" by (simp add: map_of_eq_None_iff)
    with None Cons show ?thesis by simp
  next
    case (Some v)
    then have "normalize_domain up d \<in> fst ` set vd"
      by (metis map_of_eq_None_iff option.distinct(1))
    with Some show ?thesis by simp
  qed
qed

lemma match_entry_unmatched_visible:
  "unmatched_visible (match_entry up st e) =
     unmatched_visible st - domain ` set (entry_match up (visible_data st) e)"
  by (simp add: match_entry_def entry_match_def Let_def split: option.splits prod.splits)

lemma foldl_match_entry_unmatched_visible:
  "unmatched_visible (foldl (match_entry up) st es) =
     unmatched_visible st - domain ` set (concat (map (entry_match up (visible_data st)) es))"
  by (induction es arbitrary: st)
     (auto simp: match_entry_unmatched_visible match_entry_visible_data)

text \<open>
  C1 (as stated): a source key backs at most one match, the first record claiming it; on
  the source \<open>{a: 1, b: 2}\<close> and the records with domains \<open>[a]\<close>, \<open>[a, b]\<close>, \<open>[c]\<close> the
  second record falls through to \<open>b\<close> and no source key stays unmatched. The code tests
  \<open>normalized in visible_data\<close>, and nothing is ever removed from \<open>visible_data\<close>: the
  second record matches on \<open>a\<close> again and \<open>b\<close> stays unmatched.
\<close>

theorem example_second_record_matches_a:
  "map domain (matches (match_companies urlparse_authority example_source example_records))
     = [''a'', ''a''] \<and>
   \<not> distinct (map domain
       (matches (match_companies urlparse_authority example_source example_records))) \<and>
   unmatched_visible (match_companies urlparse_authority example_source example_records)
     = {''b''} \<and>
   length (unmatched_affinity
       (match_companies urlparse_authority example_source example_records)) = 1"
  by code_simp

text \<open>
  C1 (amended): the join is made record by record. The matches of a list of records are
  those of its parts, one after the other, whatever the earlier records matched; a
  record matches on the first of its domains whose normalized form is a key of the source
  map, so that one source key can back several matches. On the example the result is
  2 matches, both on \<open>a\<close> with value 1 (first and second record), 1 unmatched source
  key (\<open>b\<close>) and 1 unmatched CRM record (the third).
\<close>

theorem match_companies_per_record:
  "matches (match_companies up vd (es1 @ es2)) =
     matches (match_companies up vd es1) @ matches (match_companies up vd es2)
   \<and> matches (match_companies up vd [e]) =
       (case find (\<lambda>d. d \<in> fst ` set vd) (map (normalize_domain up) (entry_domains e)) of
          None \<Rightarrow> []
        | Some d \<Rightarrow> [\<lparr>match_company_name = entry_company_name e, list_entry_id = entry_id e,
                      domain = d, metric_value = the (map_of vd d)\<rparr>])
   \<and> map (\<lambda>m. (list_entry_id m, domain m, metric_value m))
         (matches (match_companies up example_source example_records))
       = [(Some (Id_int 1), ''a'', 1), (Some (Id_int 2), ''a'', 1)]
   \<and> unmatched_visible (match_companies up example_source example_records) = {''b''}
   \<and> unmatched_affinity (match_companies up example_source example_records)
       = [(''Unknown'', [''c''])]"
proof -
  have na: "normalize_domain up ''a'' = ''a''" "normalize_domain up ''b'' = ''b''"
    "normalize_domain up ''c'' = ''c''"
    by (simp_all add: normalize_domain_def lower_def lower_char_def strip_def rstrip_def
        lstrip_def isspace_def)
  have ex: "match_companies up example_source example_records =
      \<lparr>visible_data = example_source,
       matches = [\<lparr>match_company_name = ''Unknown'', list_entry_id = Some (Id_int 1),
                   domain = ''a'', metric_value = 1\<rparr>,
                  \<lparr>match_company_name = ''Unknown'', list_entry_id = Some (Id_int 2),
                   domain = ''a'', metric_value = 1\<rparr>],
       unmatched_visible = {''b''},
       unmatched_affinity = [(''Unknown'', [''c''])]\<rparr>"
    by (auto simp: match_companies_def match_entry_def example_source_def example_records_def
        record_with_def entry_domains_def entry_company_name_def na)
  show ?thesis
    unfolding ex
    by (simp add: match_companies_matches entry_match_def scan_domains_find split: option.splits)
qed

theorem match_companies_per_record_witness:
  "matches (match_companies urlparse_authority example_source
       ([record_with 1 [''a'']] @ [record_with 2 [''a'', ''b'']])) =
     matches (match_companies urlparse_authority example_source [record_with 1 [''a'']]) @
     matches (match_companies urlparse_authority example_source [record_with 2 [''a'', ''b'']])
   \<and> matches (match_companies urlparse_authority example_source [record_with 2 [''a'', ''b'']]) =
       [\<lparr>match_company_name = ''Unknown'', list_entry_id = Some (Id_int 2),
         domain = ''a'', metric_value = 1\<rparr>]
   \<and> unmatched_visible (match_companies urlparse_authority example_source example_records)
       = {''b''}"
proof -
  have f: "find (\<lambda>d. d \<in> fst ` set example_source)
             (map (normalize_domain urlparse_authority) (entry_domains (record_with 2 [''a'', ''b''])))
           = Some ''a''"
    by code_simp
  have v: "the (map_of example_source ''a'') = 1" by (simp add: example_source_def)
  have n: "entry_company_name (record_with 2 [''a'', ''b'']) = ''Unknown''"
    "entry_id (record_with 2 [''a'', ''b'']) = Some (Id_int 2)"
    by (simp_all add: entry_company_name_def record_with_def)
  show ?thesis
    using match_companies_per_record [of urlparse_authority example_source
        "[record_with 1 [''a'']]" "[record_with 2 [''a'', ''b'']]" "record_with 2 [''a'', ''b'']"]
    by (simp add: f v n)
qed

text \<open>
  C9: the matching phase leaves the source metric map as it was, for every source map
  and record list; the keys that were matched are taken out of the separate set
  \<open>unmatched_visible\<close>, which ends as the keys of the map less the matched domains.
\<close>

theorem match_companies_keeps_visible_data:
  "visible_data (match_companies up vd es) = vd \<and>
   unmatched_visible (match_companies up vd es) =
     fst ` set vd - domain ` set (matches (match_companies up vd es))"
  by (simp add: match_companies_def foldl_match_entry_visible_data
      foldl_match_entry_unmatched_visible foldl_match_entry_matches)

theorem match_companies_keeps_visible_data_witness:
  "visible_data (match_companies urlparse_authority example_source example_records)
     = [(''a'', 1), (''b'', 2)] \<and>
   unmatched_visible (match_companies urlparse_authority example_source example_records) =
     fst ` set example_source -
     domain ` set (matches (match_companies urlparse_authority example_source example_records))"
  using match_companies_keeps_visible_data [of urlparse_authority example_source example_records]
  by (simp add: example_source_def)

section \<open>Collecting pages\<close>

lemma page_counter_loop_fail:
  "\<not> ok (fetch page) \<Longrightarrow> page_counter_loop fetch page acc = Some acc"
  by (subst page_counter_loop.simps) simp

lemma page_counter_loop_last:
  "ok (fetch page) \<Longrightarrow> last_page (fetch page) \<le> page \<Longrightarrow>
   page_counter_loop fetch page acc = Some (acc @ items (fetch page))"
  by (subst page_counter_loop.simps) (simp add: Let_def)

lemma page_counter_loop_next:
  "ok (fetch page) \<Longrightarrow> page < last_page (fetch page) \<Longrightarrow>
   page_counter_loop fetch page acc = page_counter_loop fetch (page + 1) (acc @ items (fetch page))"
  by (subst page_counter_loop.simps) (simp add: Let_def)

lemma page_counter_loop_run:
  assumes "\<forall>p. page \<le> p \<and> p < n \<longrightarrow> ok (fetch p) \<and> p < last_page (fetch p)"
    and "page \<le> n"
  shows "page_counter_loop fetch page acc =
         page_counter_loop fetch n (acc @ concat (map (\<lambda>p. items (fetch p)) [page..n - 1]))"
  using assms
proof (induction "nat (n - page)" arbitrary: page acc)
  case 0
  then have "page = n" by simp
  then show ?case by simp
next
  case (Suc k)
  then have lt: "page < n" by simp
  with Suc.prems have here: "ok (fetch page)" "page < last_page (fetch page)" by auto
  have k: "k = nat (n - (page + 1))" using Suc.hyps(2) by simp
  have rest: "\<forall>p. page + 1 \<le> p \<and> p < n \<longrightarrow> ok (fetch p) \<and> p < last_page (fetch p)"
    using Suc.prems(1) by auto
  have le: "page + 1 \<le> n" using lt by simp
  have up: "[page..n - 1] = page # [page + 1..n - 1]" using lt by (simp add: upto_rec1)
  show ?case
    using Suc.hyps(1) [OF k rest le, of "acc @ items (fetch page)"] here up
    by (simp add: page_counter_loop_next)
qed

lemma page_counter_loop_terminates:
  assumes "page \<le> m" and "\<not> ok (fetch m) \<or> last_page (fetch m) \<le> m"
  shows "\<exists>ys. page_counter_loop fetch page acc = Some ys"
  using assms
proof (induction "nat (m - page)" arbitrary: page acc)
  case 0
  then have "page = m" by simp
  with 0 show ?case
    by (cases "ok (fetch m)") (auto simp: page_counter_loop_fail page_counter_loop_last)
next
  case (Suc k)
  show ?case
  proof (cases "ok (fetch page) \<and> page < last_page (fetch page)")
    case True
    then have "page \<noteq> m" using Suc.prems(2) by auto
    with Suc.prems(1) have le: "page + 1 \<le> m" by simp
    have k: "k = nat (m - (page + 1))" using Suc.hyps(2) by simp
    show ?thesis
      using Suc.hyps(1) [OF k le Suc.prems(2), of "acc @ items (fetch page)"] True
      by (simp add: page_counter_loop_next)
  next
    case False
    then show ?thesis
      by (cases "ok (fetch page)") (auto simp: page_counter_loop_fail page_counter_loop_last)
  qed
qed

lemma fetched_beforeD:
  assumes "fetched_before fetch n"
  shows "1 \<le> n" and "\<forall>p. 1 \<le> p \<and> p < n \<longrightarrow> ok (fetch p) \<and> p < last_page (fetch p)"
  using assms by (auto simp: fetched_before_def list_all_iff)

lemma page_counter_loop_all:
  assumes "fetched_before fetch n" and "ok (fetch n)" and "last_page (fetch n) \<le> n"
  shows "page_counter_loop fetch 1 [] = Some (pages_items fetch n)"
proof -
  have "[1..n] = [1..n - 1] @ [n]" using fetched_beforeD(1) [OF assms(1)] upto_rec2 [of 1 n] by simp
  then show ?thesis
    using page_counter_loop_run [OF fetched_beforeD(2) [OF assms(1)] fetched_beforeD(1) [OF assms(1)],
        of "[]"] assms(2,3)
    by (simp add: page_counter_loop_last pages_items_def)
qed

lemma page_counter_loop_partial: "partial_on_failure fetch (page_counter_loop fetch 1 [])"
  unfolding partial_on_failure_def
proof (intro allI impI)
  fix n
  assume a: "fetched_before fetch n \<and> \<not> ok (fetch n)"
  then have fb: "fetched_before fetch n" and nok: "\<not> ok (fetch n)" by simp_all
  show "page_counter_loop fetch 1 [] = Some (pages_items fetch (n - 1))"
    using page_counter_loop_run [OF fetched_beforeD(2) [OF fb] fetched_beforeD(1) [OF fb], of "[]"] nok
    by (simp add: page_counter_loop_fail pages_items_def)
qed

lemma page_counter_loop_spec: "page_counter_spec fetch (page_counter_loop fetch 1 [])"
  unfolding page_counter_spec_def
proof (intro conjI allI impI)
  fix m
  assume "1 \<le> m \<and> last_page (fetch m) = m"
  then show "\<exists>ys. page_counter_loop fetch 1 [] = Some ys"
    using page_counter_loop_terminates [of 1 m fetch "[]"] by simp
next
  fix m
  assume "fetched_before fetch m \<and> ok (fetch m) \<and> last_page (fetch m) = m"
  then show "page_counter_loop fetch 1 [] = Some (pages_items fetch m)"
    using page_counter_loop_all [of fetch m] by simp
next
  show "partial_on_failure fetch (page_counter_loop fetch 1 [])"
    by (rule page_counter_loop_partial)
qed

lemma get_request_eta: "\<lparr>url = url rq, limit = limit rq\<rparr> = (rq :: get_request)"
  by simp

lemma link_loop_fail:
  assumes "url rq \<noteq> []" and "\<not> ok_status (lp_status (srv rq))"
  shows "link_loop srv base (Some (url rq)) (limit rq) acc =
         Some (Inl (HTTPError (lp_status (srv rq))))"
  using assms by (subst link_loop.simps) (simp add: get_request_eta)

lemma link_loop_next:
  assumes "url rq \<noteq> []" and "ok_status (lp_status (srv rq))"
    and "next_url (srv rq) = Some nx" and "nx \<noteq> []"
  shows "link_loop srv base (Some (url rq)) (limit rq) acc =
         link_loop srv base (Some (if prefix ''http'' nx then nx else base @ nx)) None
           (acc @ lp_data (srv rq))"
  using assms by (subst link_loop.simps) (simp add: Let_def get_request_eta)

lemma link_loop_follow:
  assumes "follow_links srv base rq n = Some rq'" and "url rq \<noteq> []"
  shows "url rq' \<noteq> [] \<and>
         (\<exists>acc'. link_loop srv base (Some (url rq)) (limit rq) acc =
                 link_loop srv base (Some (url rq')) (limit rq') acc')"
  using assms
proof (induction n arbitrary: rq acc)
  case 0
  then show ?case by auto
next
  case (Suc n)
  let ?r = "srv rq"
  from Suc.prems(1) have okr: "ok_status (lp_status ?r)"
    by (auto simp: Let_def split: if_splits)
  from Suc.prems(1) okr obtain nx where nx: "next_url ?r = Some nx" "nx \<noteq> []"
    and f: "follow_links srv base
              \<lparr>url = (if prefix ''http'' nx then nx else base @ nx), limit = None\<rparr> n = Some rq'"
    by (auto simp: Let_def split: option.splits if_splits)
  let ?q = "\<lparr>url = (if prefix ''http'' nx then nx else base @ nx), limit = None\<rparr>"
  have ne: "url ?q \<noteq> []" using nx(2) by simp
  have step: "link_loop srv base (Some (url rq)) (limit rq) acc =
      link_loop srv base (Some (url ?q)) (limit ?q) (acc @ lp_data ?r)"
    using link_loop_next [where rq = rq and srv = srv and nx = nx and base = base and acc = acc]
      Suc.prems(2) okr nx by simp
  from Suc.IH [OF f ne, of "acc @ lp_data ?r"] step show ?case by auto
qed

lemma link_loop_raises_at_any_page:
  assumes "a \<noteq> []"
  shows "raises_at_any_page srv base \<lparr>url = a, limit = params\<rparr>
           (link_loop srv base (Some a) params acc)"
  unfolding raises_at_any_page_def
proof (intro allI impI)
  fix n rq
  assume h: "follow_links srv base \<lparr>url = a, limit = params\<rparr> n = Some rq \<and>
             \<not> ok_status (lp_status (srv rq))"
  then have f: "follow_links srv base \<lparr>url = a, limit = params\<rparr> n = Some rq"
    and nok: "\<not> ok_status (lp_status (srv rq))" by simp_all
  from link_loop_follow [OF f, of acc] assms obtain acc' where
    ne: "url rq \<noteq> []" and
    eq: "link_loop srv base (Some a) params acc =
         link_loop srv base (Some (url rq)) (limit rq) acc'"
    by auto
  have "link_loop srv base (Some (url rq)) (limit rq) acc' =
        Some (Inl (HTTPError (lp_status (srv rq))))"
    using link_loop_fail [where rq = rq and srv = srv and base = base and acc = acc'] ne nok
    by simp
  with eq show "link_loop srv base (Some a) params acc =
      Some (Inl (HTTPError (lp_status (srv rq))))" by simp
qed

text \<open>
  C5: the page-counter collections \<open>get_visible_portfolio_companies\<close> and
  \<open>get_visible_company_metrics\<close> return whenever \<open>page == total_pages\<close> holds at some
  page of the server's answers; reaching that page with every page answered, they
  return the items of all pages in page order; when a page answers with a non-success
  status, they return the items of the pages fetched before it.
\<close>

theorem page_counter_collection:
  "page_counter_spec (portfolio_company_profiles api) (get_visible_portfolio_companies api)
   \<and> page_counter_spec (metrics api (Some c)) (get_visible_company_metrics api c)"
  by (simp add: get_visible_portfolio_companies_def get_visible_company_metrics_def
      page_counter_loop_spec)

theorem page_counter_collection_witness:
  "(1::int) \<le> 2 \<and> last_page (portfolio_company_profiles (visible_with JNull) 2) = 2
   \<and> fetched_before (portfolio_company_profiles (visible_with JNull)) 2
   \<and> ok (portfolio_company_profiles (visible_with JNull) 2)
   \<and> get_visible_portfolio_companies (visible_with JNull) = Some [beta, acme]
   \<and> fetched_before (portfolio_company_profiles failing_profiles) 2
   \<and> \<not> ok (portfolio_company_profiles failing_profiles 2)
   \<and> get_visible_portfolio_companies failing_profiles = Some [beta]
   \<and> fetched_before (metrics (visible_with JNull) (Some (Some (Id_int 1)))) 1
   \<and> ok (metrics (visible_with JNull) (Some (Some (Id_int 1))) 1)
   \<and> last_page (metrics (visible_with JNull) (Some (Some (Id_int 1))) 1) = 1
   \<and> get_visible_company_metrics (visible_with JNull) (Some (Id_int 1)) =
       Some [\<lparr>metric_name = Some ''Cash'', metric_id = Id_int 10\<rparr>,
             \<lparr>metric_name = Some '' Runway '', metric_id = Id_int 11\<rparr>]"
proof -
  let ?P = "portfolio_company_profiles (visible_with JNull)"
  let ?F = "portfolio_company_profiles failing_profiles"
  let ?M = "metrics (visible_with JNull) (Some (Some (Id_int 1)))"
  have p1: "last_page (?P 2) = 2" by code_simp
  have p2: "fetched_before ?P 2" by code_simp
  have p3: "ok (?P 2)" by code_simp
  have p4: "pages_items ?P 2 = [beta, acme]" by code_simp
  have f1: "fetched_before ?F 2" by code_simp
  have f2: "\<not> ok (?F 2)" by code_simp
  have f3: "pages_items ?F (2 - 1) = [beta]" by code_simp
  have m1: "fetched_before ?M 1" by code_simp
  have m2: "ok (?M 1)" by code_simp
  have m3: "last_page (?M 1) = 1" by code_simp
  have m4: "pages_items ?M 1 = [\<lparr>metric_name = Some ''Cash'', metric_id = Id_int 10\<rparr>,
             \<lparr>metric_name = Some '' Runway '', metric_id = Id_int 11\<rparr>]"
    by code_simp
  have a: "get_visible_portfolio_companies (visible_with JNull) = Some (pages_items ?P 2)"
    using page_counter_collection [of "visible_with JNull" "Some (Id_int 1)"] p1 p2 p3
    unfolding page_counter_spec_def by blast
  have b: "get_visible_portfolio_companies failing_profiles = Some (pages_items ?F (2 - 1))"
    using page_counter_collection [of failing_profiles "Some (Id_int 1)"] f1 f2
    unfolding page_counter_spec_def partial_on_failure_def by blast
  have c: "get_visible_company_metrics (visible_with JNull) (Some (Id_int 1)) =
      Some (pages_items ?M 1)"
    using page_counter_collection [of "visible_with JNull" "Some (Id_int 1)"] m1 m2 m3
    unfolding page_counter_spec_def by blast
  show ?thesis
    using p1 p2 p3 f1 f2 m1 m2 m3 a b c unfolding p4 f3 m4 by simp
qed

text \<open>
  C3 (as stated): on every read-only collection endpoint a non-success status returns the
  items of the earlier pages without raising, the link-style \<open>get_affinity_list_entries\<close>
  included. It fails there: with the second page answering 500, the call raises
  \<open>HTTPError\<close> and the two entries of the first page are not returned.
\<close>

theorem list_entries_raise_on_failure:
  "link_loop (list_entries (affinity_with 500)) (base_url (affinity_with 500))
     (Some ''https://api.affinity.co/v2/lists/L/list-entries?cursor=2'') None first_entries
     = Some (Inl (HTTPError 500)) \<and>
   get_affinity_list_entries (affinity_with 500) ''L'' = Some (Inl (HTTPError 500)) \<and>
   get_affinity_list_entries (affinity_with 500) ''L'' \<noteq> Some (Inr first_entries)"
  by code_simp

text \<open>
  C3 (amended): on the page-counter collections of the metrics source
  (\<open>get_visible_portfolio_companies\<close>, \<open>get_visible_metrics\<close>,
  \<open>get_visible_company_metrics\<close>) a non-success status on a page ends the collection,
  which returns the items of the earlier pages without raising. The link-style
  collections of the CRM (\<open>get_affinity_list_entries\<close>, \<open>get_affinity_lists\<close>,
  \<open>get_affinity_list_fields\<close>) raise \<open>HTTPError\<close> when a page is answered with a
  non-success status, be it the first page or one reached through the next-page links,
  and the items of the earlier pages are not returned.
\<close>

theorem collection_failure_policy:
  "partial_on_failure (portfolio_company_profiles api) (get_visible_portfolio_companies api)
   \<and> partial_on_failure (metrics api None) (get_visible_metrics api)
   \<and> partial_on_failure (metrics api (Some c)) (get_visible_company_metrics api c)
   \<and> raises_at_any_page (list_entries aapi) (base_url aapi)
       \<lparr>url = base_url aapi @ ''/v2/lists/'' @ l @ ''/list-entries'', limit = Some 100\<rparr>
       (get_affinity_list_entries aapi l)
   \<and> raises_at_any_page (all_lists aapi) (base_url aapi)
       \<lparr>url = base_url aapi @ ''/v2/lists'', limit = Some 100\<rparr>
       (get_affinity_lists aapi)
   \<and> raises_at_any_page (list_fields aapi) (base_url aapi)
       \<lparr>url = base_url aapi @ ''/v2/lists/'' @ l @ ''/fields'', limit = Some 100\<rparr>
       (get_affinity_list_fields aapi l)"
  by (simp add: get_visible_portfolio_companies_def get_visible_metrics_def
      get_visible_company_metrics_def page_counter_loop_partial
      get_affinity_list_entries_def get_affinity_lists_def get_affinity_list_fields_def
      link_loop_raises_at_any_page)

theorem collection_failure_policy_witness:
  "fetched_before (portfolio_company_profiles failing_profiles) 2
   \<and> \<not> ok (portfolio_company_profiles failing_profiles 2)
   \<and> get_visible_portfolio_companies failing_profiles = Some [beta]
   \<and> follow_links (list_entries (affinity_with 500)) (base_url (affinity_with 500))
        \<lparr>url = base_url (affinity_with 500) @ ''/v2/lists/'' @ ''L'' @ ''/list-entries'',
         limit = Some 100\<rparr> 1
        = Some \<lparr>url = ''https://api.affinity.co/v2/lists/L/list-entries?cursor=2'', limit = None\<rparr>
   \<and> lp_data (list_entries (affinity_with 500)
        \<lparr>url = base_url (affinity_with 500) @ ''/v2/lists/'' @ ''L'' @ ''/list-entries'',
         limit = Some 100\<rparr>) = first_entries
   \<and> \<not> ok_status (lp_status (list_entries (affinity_with 500)
          \<lparr>url = ''https://api.affinity.co/v2/lists/L/list-entries?cursor=2'', limit = None\<rparr>))
   \<and> get_affinity_list_entries (affinity_with 500) ''L'' = Some (Inl (HTTPError 500))"
proof -
  let ?F = "portfolio_company_profiles failing_profiles"
  let ?first = "\<lparr>url = base_url (affinity_with 500) @ ''/v2/lists/'' @ ''L'' @ ''/list-entries'',
                 limit = Some 100\<rparr>"
  let ?second = "\<lparr>url = ''https://api.affinity.co/v2/lists/L/list-entries?cursor=2'',
                  limit = None\<rparr>"
  have f1: "fetched_before ?F 2" by code_simp
  have f2: "\<not> ok (?F 2)" by code_simp
  have f3: "pages_items ?F (2 - 1) = [beta]" by code_simp
  have l0: "lp_data (list_entries (affinity_with 500) ?first) = first_entries" by code_simp
  have l1: "follow_links (list_entries (affinity_with 500)) (base_url (affinity_with 500))
              ?first 1 = Some ?second"
    by code_simp
  have l2: "\<not> ok_status (lp_status (list_entries (affinity_with 500) ?second))" by code_simp
  have l3: "lp_status (list_entries (affinity_with 500) ?second) = 500" by code_simp
  note t = collection_failure_policy [of failing_profiles "Some (Id_int 1)" "affinity_with 500" "''L''"]
  have a: "get_visible_portfolio_companies failing_profiles = Some (pages_items ?F (2 - 1))"
    using t f1 f2 unfolding partial_on_failure_def by blast
  have r: "raises_at_any_page (list_entries (affinity_with 500)) (base_url (affinity_with 500))
             ?first (get_affinity_list_entries (affinity_with 500) ''L'')"
    using t by blast
  have b: "get_affinity_list_entries (affinity_with 500) ''L'' =
      Some (Inl (HTTPError (lp_status (list_entries (affinity_with 500) ?second))))"
    using r l1 l2 unfolding raises_at_any_page_def by blast
  show ?thesis using f1 f2 l0 l1 l2 a b unfolding f3 l3 by simp
qed

section \<open>The update phase\<close>

lemma patch_answers_length: "length (fst (patch_answers api w qs)) = length qs"
proof (induction qs arbitrary: w)
  case Nil
  then show ?case by simp
next
  case (Cons q qs)
  obtain a w1 where p: "patch api w q = (a, w1)" by (cases "patch api w q")
  obtain as w2 where r: "patch_answers api w1 qs = (as, w2)"
    by (cases "patch_answers api w1 qs")
  from Cons.IH [of w1] r have "length as = length qs" by simp
  with p r show ?case by simp
qed

lemma update_affinity_field_answer:
  "update_affinity_field api w list_id (list_entry_id m) field_id (metric_value m) =
     (answer_ok (fst (patch api w (request_for list_id field_id m))),
      snd (patch api w (request_for list_id field_id m)))"
  by (simp add: update_affinity_field_def request_for_def Let_def
      split: prod.splits patch_result.splits)

lemma update_match_answer:
  "update_match api l f st m =
     (let a = fst (patch api (remote st) (request_for l f m))
      in \<lparr>success_count = success_count st + (if answer_ok a then 1 else 0),
          failed_count = failed_count st + (if answer_ok a then 0 else 1),
          update_calls = update_calls st @ [Update_affinity_field (request_for l f m) (answer_ok a)],
          remote = snd (patch api (remote st) (request_for l f m))\<rparr>)"
  by (simp add: update_match_def update_affinity_field_answer Let_def request_for_def)

lemma update_loop_answers:
  assumes "patch_answers api (remote st) (map (request_for l f) ms) = (answers, w')"
  shows "foldl (update_match api l f) st ms =
     \<lparr>success_count = success_count st + length (filter answer_ok answers),
      failed_count = failed_count st + length (filter (\<lambda>a. \<not> answer_ok a) answers),
      update_calls = update_calls st @ logged_updates l f ms answers,
      remote = w'\<rparr>"
  using assms
proof (induction ms arbitrary: st answers)
  case Nil
  then show ?case by (simp add: logged_updates_def)
next
  case (Cons m ms)
  let ?q = "request_for l f m"
  obtain a w1 where p: "patch api (remote st) ?q = (a, w1)" by (cases "patch api (remote st) ?q")
  obtain as where rest: "patch_answers api w1 (map (request_for l f) ms) = (as, w')"
    and ans: "answers = a # as"
    using Cons.prems p by (auto simp: Let_def split: prod.splits)
  have rem: "remote (update_match api l f st m) = w1"
    by (simp add: update_match_answer p Let_def)
  from rest rem have rest': "patch_answers api (remote (update_match api l f st m))
      (map (request_for l f) ms) = (as, w')" by simp
  show ?case
    using Cons.IH [OF rest'] ans p
    by (simp add: update_match_answer Let_def logged_updates_def)
qed

lemma get_affinity_list_entries_patch:
  "get_affinity_list_entries (aapi\<lparr>patch := p\<rparr>) l = get_affinity_list_entries aapi l"
  by (simp add: get_affinity_list_entries_def)

text \<open>
  C6: with \<open>dry_run\<close> true the update endpoint is never invoked: a run that returns has
  sent no update request and left the remote state as it was, and the run is the same
  whatever the update endpoint would answer. When the source map is not empty and the
  CRM records are fetched, the run reports, and its list of intended updates is the
  list of the matches of the fetched map with the fetched records, element for element.
\<close>

theorem dry_run_makes_no_update:
  "(\<forall>r. sync_runway_data up to_float vapi aapi w True list_id mn field_id = Some r \<longrightarrow>
        update_requests (calls r) = [] \<and> world r = w \<and>
        (\<forall>rep. outcome r = Inr (Some rep) \<longrightarrow> rep_phase rep = Dry_run (rep_matches rep)))
   \<and> sync_runway_data up to_float vapi (aapi\<lparr>patch := p\<rparr>) w True list_id mn field_id =
       sync_runway_data up to_float vapi aapi w True list_id mn field_id
   \<and> (fetch_visible_metric_data up to_float vapi mn = Some (Inr vd) \<and> vd \<noteq> [] \<and>
       get_affinity_list_entries aapi list_id = Some (Inr es) \<longrightarrow>
       sync_runway_data up to_float vapi aapi w True list_id mn field_id =
         Some \<lparr>calls = [Fetch_visible_metric_data mn, Get_affinity_list_entries list_id],
               world = w,
               outcome = Inr (Some
                 \<lparr>rep_matches = matches (match_companies up vd es),
                  rep_unmatched_visible = unmatched_visible (match_companies up vd es),
                  rep_unmatched_affinity = unmatched_affinity (match_companies up vd es),
                  rep_phase = Dry_run (matches (match_companies up vd es))\<rparr>)\<rparr>)"
proof (intro conjI allI impI)
  fix r
  assume "sync_runway_data up to_float vapi aapi w True list_id mn field_id = Some r"
  then show "update_requests (calls r) = []" and "world r = w"
    by (auto simp: sync_runway_data_def update_requests_def Let_def
        split: option.splits sum.splits if_splits)
next
  fix r rep
  assume "sync_runway_data up to_float vapi aapi w True list_id mn field_id = Some r"
    and "outcome r = Inr (Some rep)"
  then show "rep_phase rep = Dry_run (rep_matches rep)"
    by (auto simp: sync_runway_data_def Let_def split: option.splits sum.splits if_splits)
next
  show "sync_runway_data up to_float vapi (aapi\<lparr>patch := p\<rparr>) w True list_id mn field_id =
        sync_runway_data up to_float vapi aapi w True list_id mn field_id"
    unfolding sync_runway_data_def get_affinity_list_entries_patch
    by (simp add: Let_def split: option.splits sum.splits)
next
  assume "fetch_visible_metric_data up to_float vapi mn = Some (Inr vd) \<and> vd \<noteq> [] \<and>
       get_affinity_list_entries aapi list_id = Some (Inr es)"
  then show "sync_runway_data up to_float vapi aapi w True list_id mn field_id =
         Some \<lparr>calls = [Fetch_visible_metric_data mn, Get_affinity_list_entries list_id],
               world = w,
               outcome = Inr (Some
                 \<lparr>rep_matches = matches (match_companies up vd es),
                  rep_unmatched_visible = unmatched_visible (match_companies up vd es),
                  rep_unmatched_affinity = unmatched_affinity (match_companies up vd es),
                  rep_phase = Dry_run (matches (match_companies up vd es))\<rparr>)\<rparr>"
    by (simp add: sync_runway_data_def Let_def)
qed

theorem dry_run_makes_no_update_witness:
  "fetch_visible_metric_data urlparse_authority (py_float literals) (visible_with (JFloat 7.5))
     ''Runway'' = Some (Inr demo_source)
   \<and> demo_source \<noteq> []
   \<and> get_affinity_list_entries (affinity_with 200) ''L'' = Some (Inr (first_entries @ second_entries))
   \<and> matches (match_companies urlparse_authority demo_source (first_entries @ second_entries))
       = demo_matches
   \<and> length demo_matches = 3
   \<and> sync_runway_data urlparse_authority (py_float literals) (visible_with (JFloat 7.5))
       (affinity_with 200) [] True ''L'' ''Runway'' ''field-1'' = Some demo_dry_run
   \<and> sync_runway_data urlparse_authority (py_float literals) (visible_with (JFloat 7.5))
       ((affinity_with 200)\<lparr>patch := unreachable_patch\<rparr>) [] True ''L'' ''Runway'' ''field-1''
       = Some demo_dry_run
   \<and> update_requests (calls demo_dry_run) = [] \<and> world demo_dry_run = []
   \<and> outcome demo_dry_run = Inr (Some (demo_report (Dry_run demo_matches)))"
proof -
  have f: "fetch_visible_metric_data urlparse_authority (py_float literals)
      (visible_with (JFloat 7.5)) ''Runway'' = Some (Inr demo_source)"
    by code_simp
  have ne: "demo_source \<noteq> []" by (simp add: demo_source_def)
  have e: "get_affinity_list_entries (affinity_with 200) ''L'' =
      Some (Inr (first_entries @ second_entries))"
    by code_simp
  have mc: "match_companies urlparse_authority demo_source (first_entries @ second_entries) =
      \<lparr>visible_data = demo_source, matches = demo_matches, unmatched_visible = {},
       unmatched_affinity = [(''Gamma'', [''gamma.org''])]\<rparr>"
    by code_simp
  have l: "length demo_matches = 3" by (simp add: demo_matches_def)
  note t = dry_run_makes_no_update [where up = urlparse_authority and to_float = "py_float literals"
      and vapi = "visible_with (JFloat 7.5)" and aapi = "affinity_with 200" and w = "[]"
      and list_id = "''L''" and mn = "''Runway''" and field_id = "''field-1''"
      and p = unreachable_patch and vd = demo_source and es = "first_entries @ second_entries"]
  have s: "sync_runway_data urlparse_authority (py_float literals) (visible_with (JFloat 7.5))
       (affinity_with 200) [] True ''L'' ''Runway'' ''field-1'' = Some demo_dry_run"
    using t f ne e unfolding mc by (simp add: demo_dry_run_def demo_report_def)
  have s': "sync_runway_data urlparse_authority (py_float literals) (visible_with (JFloat 7.5))
       ((affinity_with 200)\<lparr>patch := unreachable_patch\<rparr>) [] True ''L'' ''Runway'' ''field-1''
       = Some demo_dry_run"
    using t s by simp
  have q: "update_requests (calls demo_dry_run) = [] \<and> world demo_dry_run = []"
    using t s by blast
  have o: "outcome demo_dry_run = Inr (Some (demo_report (Dry_run demo_matches)))"
    by (simp add: demo_dry_run_def)
  show ?thesis using f ne e mc l s s' q o by simp
qed

text \<open>
  C7: with \<open>dry_run\<close> false, a non-empty source map and the CRM records fetched, the run
  always reports, whatever the update endpoint answers. With N matches it sends exactly
  one update request per match, in the order of the matches, each from the remote state
  that the earlier ones left. Each call returns \<open>True\<close> when the endpoint answers with
  a success status and \<open>False\<close> on a transport error or a non-success status, and the
  next match is tried in either case. \<open>succeeded\<close> and \<open>failed\<close> count the answers of
  each kind, so that \<open>succeeded + failed = N\<close> and \<open>failed\<close> is the number of matches
  whose update failed.
\<close>

theorem update_phase_tallies:
  assumes "fetch_visible_metric_data up to_float vapi mn = Some (Inr vd)" and "vd \<noteq> []"
    and "get_affinity_list_entries aapi list_id = Some (Inr es)"
    and "patch_answers aapi w
           (map (request_for list_id field_id) (matches (match_companies up vd es)))
         = (answers, w')"
  shows "sync_runway_data up to_float vapi aapi w False list_id mn field_id =
           Some \<lparr>calls = [Fetch_visible_metric_data mn, Get_affinity_list_entries list_id]
                          @ logged_updates list_id field_id (matches (match_companies up vd es))
                              answers,
                 world = w',
                 outcome = Inr (Some
                   \<lparr>rep_matches = matches (match_companies up vd es),
                    rep_unmatched_visible = unmatched_visible (match_companies up vd es),
                    rep_unmatched_affinity = unmatched_affinity (match_companies up vd es),
                    rep_phase = Updated (length (filter answer_ok answers))
                                  (length (filter (\<lambda>a. \<not> answer_ok a) answers))\<rparr>)\<rparr>
         \<and> length answers = length (matches (match_companies up vd es))
         \<and> length (filter answer_ok answers) + length (filter (\<lambda>a. \<not> answer_ok a) answers)
             = length (matches (match_companies up vd es))"
proof -
  let ?ms = "matches (match_companies up vd es)"
  let ?st0 = "\<lparr>success_count = 0, failed_count = 0, update_calls = [], remote = w\<rparr>
                :: ('a, 'b) update_state"
  have u: "foldl (update_match aapi list_id field_id) ?st0 ?ms =
      \<lparr>success_count = length (filter answer_ok answers),
       failed_count = length (filter (\<lambda>a. \<not> answer_ok a) answers),
       update_calls = logged_updates list_id field_id ?ms answers,
       remote = w'\<rparr>"
    using update_loop_answers [of aapi ?st0 list_id field_id ?ms answers w'] assms(4) by simp
  have len: "length answers = length ?ms"
    using patch_answers_length [of aapi w "map (request_for list_id field_id) ?ms"] assms(4)
    by simp
  have part: "length (filter answer_ok answers) + length (filter (\<lambda>a. \<not> answer_ok a) answers)
      = length answers"
    using sum_length_filter_compl [of answer_ok answers] by (simp add: comp_def)
  show ?thesis
    using assms(1,2,3) u len part by (simp add: sync_runway_data_def Let_def)
qed

theorem update_phase_tallies_witness:
  "fetch_visible_metric_data urlparse_authority (py_float literals) (visible_with (JFloat 7.5))
     ''Runway'' = Some (Inr demo_source)
   \<and> demo_source \<noteq> []
   \<and> get_affinity_list_entries (affinity_with 200) ''L'' = Some (Inr (first_entries @ second_entries))
   \<and> matches (match_companies urlparse_authority demo_source (first_entries @ second_entries))
       = demo_matches
   \<and> patch_answers (affinity_with 200) [] (map (request_for ''L'' ''field-1'') demo_matches)
       = ([Patch_response 200 ''{}'', Patch_response 500 ''server error'',
           Request_exception ''timed out''],
          map (request_for ''L'' ''field-1'') demo_matches)
   \<and> sync_runway_data urlparse_authority (py_float literals) (visible_with (JFloat 7.5))
       (affinity_with 200) [] False ''L'' ''Runway'' ''field-1'' = Some demo_update_run
   \<and> outcome demo_update_run = Inr (Some (demo_report (Updated 1 2)))
   \<and> length demo_matches = 3"
proof -
  let ?answers = "[Patch_response 200 ''{}'', Patch_response 500 ''server error'',
                   Request_exception ''timed out'']"
  have f: "fetch_visible_metric_data urlparse_authority (py_float literals)
      (visible_with (JFloat 7.5)) ''Runway'' = Some (Inr demo_source)"
    by code_simp
  have ne: "demo_source \<noteq> []" by (simp add: demo_source_def)
  have e: "get_affinity_list_entries (affinity_with 200) ''L'' =
      Some (Inr (first_entries @ second_entries))"
    by code_simp
  have mc: "match_companies urlparse_authority demo_source (first_entries @ second_entries) =
      \<lparr>visible_data = demo_source, matches = demo_matches, unmatched_visible = {},
       unmatched_affinity = [(''Gamma'', [''gamma.org''])]\<rparr>"
    by code_simp
  have pa: "patch_answers (affinity_with 200) [] (map (request_for ''L'' ''field-1'') demo_matches)
      = (?answers, map (request_for ''L'' ''field-1'') demo_matches)"
    by code_simp
  have pa': "patch_answers (affinity_with 200) []
      (map (request_for ''L'' ''field-1'')
        (matches (match_companies urlparse_authority demo_source (first_entries @ second_entries))))
      = (?answers, map (request_for ''L'' ''field-1'') demo_matches)"
    unfolding mc using pa by simp
  have lg: "logged_updates ''L'' ''field-1'' demo_matches ?answers =
      [Update_affinity_field (request_for ''L'' ''field-1'' (demo_matches ! 0)) True,
       Update_affinity_field (request_for ''L'' ''field-1'' (demo_matches ! 1)) False,
       Update_affinity_field (request_for ''L'' ''field-1'' (demo_matches ! 2)) False]"
    by code_simp
  have l: "length demo_matches = 3" by (simp add: demo_matches_def)
  have s: "sync_runway_data urlparse_authority (py_float literals) (visible_with (JFloat 7.5))
       (affinity_with 200) [] False ''L'' ''Runway'' ''field-1'' = Some demo_update_run"
    using update_phase_tallies [OF f ne e pa'] unfolding mc
    by (simp add: demo_update_run_def demo_report_def lg ok_status_def)
  have o: "outcome demo_update_run = Inr (Some (demo_report (Updated 1 2)))"
    by (simp add: demo_update_run_def)
  show ?thesis using f ne e mc pa s o l by simp
qed

text \<open>
  C10: when the fetched source metric map is empty, the run returns at once, in dry-run
  mode and otherwise: its only call is the fetch of the metric data, so no CRM record is
  fetched, nothing is matched or reported, no update is sent and the remote state stays
  as it was.
\<close>

theorem empty_source_returns_at_once:
  assumes "fetch_visible_metric_data up to_float vapi mn = Some (Inr [])"
  shows "sync_runway_data up to_float vapi aapi w dry_run list_id mn field_id =
           Some \<lparr>calls = [Fetch_visible_metric_data mn], world = w, outcome = Inr None\<rparr>"
  using assms by (simp add: sync_runway_data_def)

theorem empty_source_returns_at_once_witness:
  "fetch_visible_metric_data urlparse_authority (py_float literals) no_website ''Runway''
     = Some (Inr [])
   \<and> sync_runway_data urlparse_authority (py_float literals) no_website (affinity_with 200) []
       True ''L'' ''Runway'' ''field-1'' =
       Some \<lparr>calls = [Fetch_visible_metric_data ''Runway''], world = [], outcome = Inr None\<rparr>
   \<and> sync_runway_data urlparse_authority (py_float literals) no_website (affinity_with 200) []
       False ''L'' ''Runway'' ''field-1'' =
       Some \<lparr>calls = [Fetch_visible_metric_data ''Runway''], world = [], outcome = Inr None\<rparr>"
proof -
  have h: "fetch_visible_metric_data urlparse_authority (py_float literals) no_website ''Runway''
     = Some (Inr [])"
    by code_simp
  show ?thesis
    using h empty_source_returns_at_once [OF h, of "affinity_with 200" "[]" True "''L''" "''field-1''"]
      empty_source_returns_at_once [OF h, of "affinity_with 200" "[]" False "''L''" "''field-1''"]
    by simp
qed

section \<open>Values that are not numbers\<close>

lemma process_company_skips_value:
  assumes "get_company_website api (company_id c) wpid = Some site"
    and "site \<noteq> []" and "site \<noteq> ''N/A''" and "normalize_domain up site \<noteq> []"
    and "get_visible_company_metrics api (company_id c) = Some ms"
    and "find_metric mn ms = Some m"
    and "get_latest_data_point api (metric_id m) = Some l"
    and "\<not> usable (latest_value l) \<or> to_float (latest_value l) = Inl ValueError
         \<or> to_float (latest_value l) = Inl TypeError"
  shows "process_company up to_float api mn wpid dtv c = Some (Inr dtv)"
  using assms by (auto simp: process_company_def Let_def)

lemma process_company_raises:
  assumes "get_company_website api (company_id c) wpid = Some site"
    and "site \<noteq> []" and "site \<noteq> ''N/A''" and "normalize_domain up site \<noteq> []"
    and "get_visible_company_metrics api (company_id c) = Some ms"
    and "find_metric mn ms = Some m"
    and "get_latest_data_point api (metric_id m) = Some l"
    and "usable (latest_value l)" and "to_float (latest_value l) = Inl OverflowError"
  shows "process_company up to_float api mn wpid dtv c = Some (Inl OverflowError)"
  using assms by (simp add: process_company_def Let_def)

text \<open>
  C8: a company whose latest value is null or \<open>"None"\<close>, or whose value fails the
  coercion to a float, is left out of the map and the run goes on. The code does so for
  null, for \<open>"None"\<close> and for the failures that raise \<open>ValueError\<close> or \<open>TypeError\<close>
  (Acme is still recorded after Beta was skipped). An integer too large for a float
  makes \<open>float\<close> raise \<open>OverflowError\<close>, which the \<open>except\<close> clause does not name:
  with the value \<open>10 ^ 400\<close> for Beta, \<open>fetch_visible_metric_data\<close> raises, Acme is
  never reached and \<open>sync_runway_data\<close> ends with the exception.
\<close>

theorem overflowing_value_aborts_run:
  "py_float literals (JInt (10 ^ 400)) = Inl OverflowError
   \<and> fetch_visible_metric_data urlparse_authority (py_float literals)
       (visible_with (JInt (10 ^ 400))) ''Runway'' = Some (Inl OverflowError)
   \<and> sync_runway_data urlparse_authority (py_float literals) (visible_with (JInt (10 ^ 400)))
       (affinity_with 200) [] True ''L'' ''Runway'' ''field-1'' =
       Some \<lparr>calls = [Fetch_visible_metric_data ''Runway''], world = [],
             outcome = Inl OverflowError\<rparr>
   \<and> fetch_visible_metric_data urlparse_authority (py_float literals)
       (visible_with (JStr ''abc'')) ''Runway'' = Some (Inr [(''acme.com'', 18)])
   \<and> fetch_visible_metric_data urlparse_authority (py_float literals)
       (visible_with JOther) ''Runway'' = Some (Inr [(''acme.com'', 18)])
   \<and> fetch_visible_metric_data urlparse_authority (py_float literals)
       (visible_with JNull) ''Runway'' = Some (Inr [(''acme.com'', 18)])
   \<and> fetch_visible_metric_data urlparse_authority (py_float literals)
       (visible_with (JStr ''None'')) ''Runway'' = Some (Inr [(''acme.com'', 18)])"
proof -
  have 1: "py_float literals (JInt (10 ^ 400)) = Inl OverflowError"
    by (simp add: py_float_def)
  have 2: "fetch_visible_metric_data urlparse_authority (py_float literals)
       (visible_with (JInt (10 ^ 400))) ''Runway'' = Some (Inl OverflowError)"
    by code_simp
  have 3: "sync_runway_data urlparse_authority (py_float literals) (visible_with (JInt (10 ^ 400)))
       (affinity_with 200) [] True ''L'' ''Runway'' ''field-1'' =
       Some \<lparr>calls = [Fetch_visible_metric_data ''Runway''], world = [],
             outcome = Inl OverflowError\<rparr>"
    unfolding sync_runway_data_def 2 by simp
  have 4: "fetch_visible_metric_data urlparse_authority (py_float literals)
       (visible_with (JStr ''abc'')) ''Runway'' = Some (Inr [(''acme.com'', 18)])"
    by code_simp
  have 5: "fetch_visible_metric_data urlparse_authority (py_float literals)
       (visible_with JOther) ''Runway'' = Some (Inr [(''acme.com'', 18)])"
    by code_simp
  have 6: "fetch_visible_metric_data urlparse_authority (py_float literals)
       (visible_with JNull) ''Runway'' = Some (Inr [(''acme.com'', 18)])"
    by code_simp
  have 7: "fetch_visible_metric_data urlparse_authority (py_float literals)
       (visible_with (JStr ''None'')) ''Runway'' = Some (Inr [(''acme.com'', 18)])"
    by code_simp
  show ?thesis using 1 2 3 4 5 6 7 by blast
qed

end
